theory Spec2Isabelle
  imports Complex_Main "HOL-Library.Word" "HOL-Library.Multiset" "HOL-Library.Sublist"
begin

unbundle bit_operations_syntax

section \<open>Values of the program\<close>

text \<open>
  A JavaScript number is a double: NaN, one of the two infinities, or a finite value.
  The game only ever compares attribute values (\<open><\<close> and \<open>===\<close>), and the order of the
  finite doubles is the order of the reals they denote, so a finite number is modelled by
  its real value.
\<close>

datatype number = NaN | NegInf | Fin real | PosInf

text \<open>The operator \<open><\<close> on two numbers: false as soon as one side is NaN.\<close>

fun num_lt :: "number \<Rightarrow> number \<Rightarrow> bool" where
  "num_lt NaN _ = False"
| "num_lt _ NaN = False"
| "num_lt PosInf _ = False"
| "num_lt _ NegInf = False"
| "num_lt NegInf _ = True"
| "num_lt _ PosInf = True"
| "num_lt (Fin x) (Fin y) = (x < y)"

text \<open>The operator \<open>===\<close> on two numbers: NaN is not equal to itself.\<close>

fun num_eq :: "number \<Rightarrow> number \<Rightarrow> bool" where
  "num_eq NaN _ = False"
| "num_eq _ NaN = False"
| "num_eq x y = (x = y)"

text \<open>
  A numeric attribute of a company is \<open>null\<close>, \<open>undefined\<close> or a number.
  A categorical attribute is \<open>null\<close> or a string.
\<close>

datatype jsval = Null | Undefined | Num number

datatype error = TypeError

definition bindE :: "error + 'a \<Rightarrow> ('a \<Rightarrow> error + 'b) \<Rightarrow> error + 'b" where
  "bindE m f = (case m of Inl e \<Rightarrow> Inl e | Inr x \<Rightarrow> f x)"

record company =
  name :: string
  ticker :: string
  sector :: "string option"
  hq :: "string option"
  founded :: jsval
  price :: jsval
  marketCap :: jsval
  employees :: jsval
  pe :: jsval

text \<open>
  Strings are lists of 8-bit characters; the few non-ASCII characters of the program's
  literals are written as their UTF-8 bytes.
\<close>

definition ndash :: string where
  "ndash = [CHR 0xE2, CHR 0x80, CHR 0x93]"

definition mdash :: string where
  "mdash = [CHR 0xE2, CHR 0x80, CHR 0x94]"

definition arrowUp :: string where
  "arrowUp = [CHR 0xE2, CHR 0x96, CHR 0xB2]"

definition arrowDown :: string where
  "arrowDown = [CHR 0xE2, CHR 0x96, CHR 0xBC]"

definition greenTile :: string where
  "greenTile = [CHR 0xF0, CHR 0x9F, CHR 0x9F, CHR 0xA9]"

definition blackTile :: string where
  "blackTile = [CHR 0xE2, CHR 0xAC, CHR 0x9B]"

definition checkMark :: string where
  "checkMark = [CHR 0xE2, CHR 0x9C, CHR 0x85]"

definition MAX_GUESSES :: nat where
  "MAX_GUESSES = 8"

section \<open>Buckets\<close>

record bucketDef =
  label :: string
  upper :: number

record bucket =
  blabel :: string
  index :: int

definition BUCKETS_founded :: "bucketDef list" where
  "BUCKETS_founded =
    [\<lparr>label = ''<1900'', upper = Fin 1900\<rparr>,
     \<lparr>label = ''1900'' @ ndash @ ''1949'', upper = Fin 1950\<rparr>,
     \<lparr>label = ''1950'' @ ndash @ ''1969'', upper = Fin 1970\<rparr>,
     \<lparr>label = ''1970'' @ ndash @ ''1989'', upper = Fin 1990\<rparr>,
     \<lparr>label = ''1990'' @ ndash @ ''2009'', upper = Fin 2010\<rparr>,
     \<lparr>label = ''2010+'', upper = PosInf\<rparr>]"

definition BUCKETS_price :: "bucketDef list" where
  "BUCKETS_price =
    [\<lparr>label = ''<$25'', upper = Fin 25\<rparr>,
     \<lparr>label = ''$25'' @ ndash @ ''$50'', upper = Fin 50\<rparr>,
     \<lparr>label = ''$50'' @ ndash @ ''$100'', upper = Fin 100\<rparr>,
     \<lparr>label = ''$100'' @ ndash @ ''$200'', upper = Fin 200\<rparr>,
     \<lparr>label = ''$200'' @ ndash @ ''$500'', upper = Fin 500\<rparr>,
     \<lparr>label = ''$500+'', upper = PosInf\<rparr>]"

definition BUCKETS_marketCap :: "bucketDef list" where
  "BUCKETS_marketCap =
    [\<lparr>label = ''<$10B'', upper = Fin 10000000000\<rparr>,
     \<lparr>label = ''$10B'' @ ndash @ ''$50B'', upper = Fin 50000000000\<rparr>,
     \<lparr>label = ''$50B'' @ ndash @ ''$200B'', upper = Fin 200000000000\<rparr>,
     \<lparr>label = ''$200B'' @ ndash @ ''$500B'', upper = Fin 500000000000\<rparr>,
     \<lparr>label = ''$500B'' @ ndash @ ''$1T'', upper = Fin 1000000000000\<rparr>,
     \<lparr>label = ''$1T+'', upper = PosInf\<rparr>]"

definition BUCKETS_employees :: "bucketDef list" where
  "BUCKETS_employees =
    [\<lparr>label = ''<10K'', upper = Fin 10000\<rparr>,
     \<lparr>label = ''10K'' @ ndash @ ''50K'', upper = Fin 50000\<rparr>,
     \<lparr>label = ''50K'' @ ndash @ ''100K'', upper = Fin 100000\<rparr>,
     \<lparr>label = ''100K'' @ ndash @ ''200K'', upper = Fin 200000\<rparr>,
     \<lparr>label = ''200K'' @ ndash @ ''500K'', upper = Fin 500000\<rparr>,
     \<lparr>label = ''500K+'', upper = PosInf\<rparr>]"

definition BUCKETS_pe :: "bucketDef list" where
  "BUCKETS_pe =
    [\<lparr>label = ''<10'', upper = Fin 10\<rparr>,
     \<lparr>label = ''10'' @ ndash @ ''20'', upper = Fin 20\<rparr>,
     \<lparr>label = ''20'' @ ndash @ ''30'', upper = Fin 30\<rparr>,
     \<lparr>label = ''30'' @ ndash @ ''50'', upper = Fin 50\<rparr>,
     \<lparr>label = ''50'' @ ndash @ ''100'', upper = Fin 100\<rparr>,
     \<lparr>label = ''100+'', upper = PosInf\<rparr>]"

text \<open>
  The \<open>for\<close> loop of \<open>bucketUpper\<close>: the definitions still to be examined and the index
  \<open>i\<close> of the first of them; it returns at the first definition whose \<open>upper\<close> is above
  the value.
\<close>

fun bucketScan :: "number \<Rightarrow> bucketDef list \<Rightarrow> nat \<Rightarrow> bucket option" where
  "bucketScan v [] i = None"
| "bucketScan v (d # ds) i =
     (if num_lt v (upper d) then Some \<lparr>blabel = label d, index = int i\<rparr>
      else bucketScan v ds (Suc i))"

text \<open>
  \<open>bucketUpper(value, bucketDefs)\<close>. After the loop the last definition is read; on an
  empty array that is \<open>undefined.label\<close>, a TypeError.
\<close>

definition bucketUpper :: "jsval \<Rightarrow> bucketDef list \<Rightarrow> error + bucket" where
  "bucketUpper v bucketDefs =
     (case v of
        Null \<Rightarrow> Inr \<lparr>blabel = ''N/A'', index = - 1\<rparr>
      | Undefined \<Rightarrow> Inr \<lparr>blabel = ''N/A'', index = - 1\<rparr>
      | Num NaN \<Rightarrow> Inr \<lparr>blabel = ''N/A'', index = - 1\<rparr>
      | Num x \<Rightarrow>
          (case bucketScan x bucketDefs 0 of
             Some b \<Rightarrow> Inr b
           | None \<Rightarrow>
               (if bucketDefs = [] then Inl TypeError
                else Inr \<lparr>blabel = label (last bucketDefs),
                          index = int (length bucketDefs) - 1\<rparr>)))"

fun arrowFor :: "jsval \<Rightarrow> jsval \<Rightarrow> string" where
  "arrowFor (Num x) (Num y) =
     (if num_eq x y then [] else if num_lt x y then arrowUp else arrowDown)"
| "arrowFor _ _ = []"

section \<open>Rendering a guess\<close>

text \<open>
  A cell of a row: its extra class, whether its class is \<open>ok\<close> or \<open>bad\<close>, its text, and
  the text of its arrow span (empty when the cell has no arrow span).
\<close>

record cell =
  extraClass :: string
  isOk :: bool
  textContent :: string
  arrow :: string

definition makeCell :: "string \<Rightarrow> bool \<Rightarrow> string \<Rightarrow> cell" where
  "makeCell text ok extra = \<lparr>extraClass = extra, isOk = ok, textContent = text, arrow = []\<rparr>"

definition makeNumericCell :: "string \<Rightarrow> bool \<Rightarrow> string \<Rightarrow> cell" where
  "makeNumericCell bucketLabel ok arr =
     \<lparr>extraClass = [], isOk = ok, textContent = bucketLabel,
      arrow = (if \<not> ok \<and> arr \<noteq> [] then arr else [])\<rparr>"

text \<open>\<open>s || d\<close> for a value that is \<open>null\<close> or a string: the empty string is falsy too.\<close>

definition orElse :: "string option \<Rightarrow> string \<Rightarrow> string" where
  "orElse s d = (case s of None \<Rightarrow> d | Some x \<Rightarrow> (if x = [] then d else x))"

text \<open>
  The block that \<open>renderGuessRow\<close> repeats for founded, price, market cap and employees,
  and the block for P/E with its own rule.
\<close>

definition numericCell :: "bucketDef list \<Rightarrow> jsval \<Rightarrow> jsval \<Rightarrow> error + cell" where
  "numericCell defs gv av =
     bindE (bucketUpper gv defs) (\<lambda>g.
     bindE (bucketUpper av defs) (\<lambda>a.
       Inr (makeNumericCell (blabel g) (index g = index a \<and> index g \<noteq> - 1) (arrowFor gv av))))"

definition peCell :: "bucketDef list \<Rightarrow> jsval \<Rightarrow> jsval \<Rightarrow> error + cell" where
  "peCell defs gv av =
     bindE (bucketUpper gv defs) (\<lambda>g.
     bindE (bucketUpper av defs) (\<lambda>a.
       Inr (makeNumericCell (blabel g)
             ((index g = - 1 \<and> index a = - 1) \<or> (index g = index a \<and> index g \<noteq> - 1))
             (arrowFor gv av))))"

text \<open>
  \<open>renderGuessRow(guessCompany)\<close> against the day's answer: the eight cells of the row,
  in the order they are appended (company, sector, hq, founded, price, market cap,
  employees, P/E).
\<close>

definition renderGuessRow :: "company \<Rightarrow> company \<Rightarrow> error + cell list" where
  "renderGuessRow guessCompany answer =
     (let isCompanyCorrect = (ticker guessCompany = ticker answer);
          c0 = makeCell (name guessCompany @ '' ('' @ ticker guessCompany @ '')''
                          @ (if isCompanyCorrect then '' '' @ checkMark else []))
                 isCompanyCorrect ''company'';
          c1 = makeCell (orElse (sector guessCompany) ''N/A'')
                 (orElse (sector guessCompany) [] = orElse (sector answer) []) [];
          c2 = makeCell (orElse (hq guessCompany) ''N/A'')
                 (orElse (hq guessCompany) [] = orElse (hq answer) []) []
      in bindE (numericCell BUCKETS_founded (founded guessCompany) (founded answer)) (\<lambda>c3.
         bindE (numericCell BUCKETS_price (price guessCompany) (price answer)) (\<lambda>c4.
         bindE (numericCell BUCKETS_marketCap (marketCap guessCompany) (marketCap answer)) (\<lambda>c5.
         bindE (numericCell BUCKETS_employees (employees guessCompany) (employees answer)) (\<lambda>c6.
         bindE (peCell BUCKETS_pe (pe guessCompany) (pe answer)) (\<lambda>c7.
           Inr [c0, c1, c2, c3, c4, c5, c6, c7]))))))"

section \<open>Session and share text\<close>

text \<open>
  The value that \<open>JSON.parse\<close> returns. An object is the list of its members; a member
  is read with \<open>map_of\<close>.
\<close>

datatype json =
    JNull
  | JBool bool
  | JNum number
  | JStr string
  | JArr "json list"
  | JObj "(string \<times> json) list"

text \<open>
  The state object of the game. Its guesses are the elements of a parsed array: strings
  when the program wrote them, any value when the stored text came from elsewhere.
\<close>

record session =
  date :: string
  guesses :: "json list"
  solved :: bool

definition digit :: "nat \<Rightarrow> char" where
  "digit n = ''0123456789'' ! n"

function string_of_nat :: "nat \<Rightarrow> string" where
  "string_of_nat n =
     (if n < 10 then [digit n] else string_of_nat (n div 10) @ [digit (n mod 10)])"
  by pat_completeness auto
termination
  by (relation "measure id") auto

declare string_of_nat.simps [simp del]

fun joinWith :: "string \<Rightarrow> string list \<Rightarrow> string" where
  "joinWith sep [] = []"
| "joinWith sep [x] = x"
| "joinWith sep (x # y # ys) = x @ sep @ joinWith sep (y # ys)"

definition newline :: string where
  "newline = [CHR 0x0A]"

text \<open>\<open>byTicker.get(t)\<close>: the keys of the map are strings, so only a string finds one.\<close>

definition getByTicker :: "(string \<Rightarrow> company option) \<Rightarrow> json \<Rightarrow> company option" where
  "getByTicker byTicker t = (case t of JStr k \<Rightarrow> byTicker k | _ \<Rightarrow> None)"

text \<open>A tile of \<open>makeShareText\<close> that compares two bucket indices.\<close>

definition indexTile :: "bucketDef list \<Rightarrow> jsval \<Rightarrow> jsval \<Rightarrow> error + string" where
  "indexTile defs gv av =
     bindE (bucketUpper gv defs) (\<lambda>g.
     bindE (bucketUpper av defs) (\<lambda>a.
       Inr (if index g = index a then greenTile else blackTile)))"

definition peTile :: "bucketDef list \<Rightarrow> jsval \<Rightarrow> jsval \<Rightarrow> error + string" where
  "peTile defs gv av =
     bindE (bucketUpper gv defs) (\<lambda>g.
     bindE (bucketUpper av defs) (\<lambda>a.
       (let gi = index g; ai = index a;
            peOk = ((gi = - 1 \<and> ai = - 1) \<or> (gi = ai \<and> gi \<noteq> - 1))
        in Inr (if peOk then greenTile else blackTile))))"

text \<open>The array \<open>tiles\<close> that one iteration of the loop of \<open>makeShareText\<close> builds.\<close>

definition guessTiles :: "company \<Rightarrow> company \<Rightarrow> error + string list" where
  "guessTiles g answer =
     (let t1 = (if orElse (sector g) [] = orElse (sector answer) [] then greenTile else blackTile);
          t2 = (if orElse (hq g) [] = orElse (hq answer) [] then greenTile else blackTile)
      in bindE (indexTile BUCKETS_founded (founded g) (founded answer)) (\<lambda>t3.
         bindE (indexTile BUCKETS_price (price g) (price answer)) (\<lambda>t4.
         bindE (indexTile BUCKETS_marketCap (marketCap g) (marketCap answer)) (\<lambda>t5.
         bindE (indexTile BUCKETS_employees (employees g) (employees answer)) (\<lambda>t6.
         bindE (peTile BUCKETS_pe (pe g) (pe answer)) (\<lambda>t7.
           Inr [t1, t2, t3, t4, t5, t6, t7]))))))"

fun shareLines :: "(string \<Rightarrow> company option) \<Rightarrow> company \<Rightarrow> json list \<Rightarrow> error + string list" where
  "shareLines byTicker answer [] = Inr []"
| "shareLines byTicker answer (t # ts) =
     (case getByTicker byTicker t of
        None \<Rightarrow> shareLines byTicker answer ts
      | Some g \<Rightarrow>
          bindE (guessTiles g answer) (\<lambda>tiles.
          bindE (shareLines byTicker answer ts) (\<lambda>rest.
            Inr (concat tiles # rest))))"

definition resultLine :: "session \<Rightarrow> string" where
  "resultLine state =
     (if solved state
      then ''Solved in '' @ string_of_nat (length (guesses state)) @ ''/'' @ string_of_nat MAX_GUESSES
      else ''Unsolved (0/'' @ string_of_nat MAX_GUESSES @ '')'')"

text \<open>
  \<open>makeShareText(state)\<close>, with the globals it reads (\<open>byTicker\<close>, \<open>answer\<close>) and the
  page's address as arguments.
\<close>

definition makeShareText ::
  "(string \<Rightarrow> company option) \<Rightarrow> company \<Rightarrow> string \<Rightarrow> session \<Rightarrow> error + string" where
  "makeShareText byTicker answer baseUrl state =
     bindE (shareLines byTicker answer (guesses state)) (\<lambda>lines.
       Inr (''Companydle '' @ date state @ '' '' @ mdash @ '' '' @ resultLine state
            @ newline @ joinWith newline lines @ newline @ baseUrl))"

section \<open>The daily answer\<close>

definition ANSWER_SALT :: string where
  "ANSWER_SALT = ''companydle-v1''"

text \<open>
  \<open>cyrb53\<close>: \<open>Math.imul\<close> and the bit operators work on 32-bit integers, so \<open>h1\<close> and
  \<open>h2\<close> are 32-bit words; the result is below \<open>2 ^ 53\<close> and exact.
\<close>

fun cyrb53_loop :: "32 word \<times> 32 word \<Rightarrow> string \<Rightarrow> 32 word \<times> 32 word" where
  "cyrb53_loop (h1, h2) [] = (h1, h2)"
| "cyrb53_loop (h1, h2) (c # cs) =
     (let ch = (of_char c :: 32 word)
      in cyrb53_loop ((h1 XOR ch) * 2654435761, (h2 XOR ch) * 1597334677) cs)"

definition cyrb53 :: "string \<Rightarrow> 32 word \<Rightarrow> nat" where
  "cyrb53 str seed =
     (let (h1, h2) = cyrb53_loop (0xdeadbeef XOR seed, 0x41c6ce57 XOR seed) str;
          h1' = ((h1 XOR drop_bit 16 h1) * 2246822507) XOR ((h2 XOR drop_bit 13 h2) * 3266489909);
          h2' = ((h2 XOR drop_bit 16 h2) * 2246822507) XOR ((h1' XOR drop_bit 13 h1') * 3266489909)
      in 4294967296 * unat (2097151 AND h2') + unat h1')"

text \<open>
  One call of the generator that \<open>mulberry32\<close> returns: the new value of \<open>t\<close> and the
  32-bit numerator of the fraction it returns (the result is that numerator divided by
  \<open>2 ^ 32\<close>). The program adds to \<open>t\<close> as a double, which is exact below \<open>2 ^ 53\<close>
  (several million calls), and reads \<open>t\<close> only through 32-bit operators, so \<open>t\<close> is
  kept as a 32-bit word.
\<close>

definition mulberry32_next :: "32 word \<Rightarrow> 32 word \<times> 32 word" where
  "mulberry32_next t =
     (let t' = t + 0x6D2B79F5;
          x = t';
          x = (x XOR drop_bit 15 x) * (x OR 1);
          x = x XOR (x + (x XOR drop_bit 7 x) * (x OR 61))
      in (t', x XOR drop_bit 14 x))"

text \<open>
  The loop of \<open>seededShuffle\<close>, from index \<open>i\<close> down to 1. With numerator \<open>u\<close>,
  \<open>Math.floor(rand() * (i + 1))\<close> is \<open>u * (i + 1) div 2 ^ 32\<close> (the product of the two
  doubles is exact for arrays of up to \<open>2 ^ 21\<close> elements).
\<close>

fun shuffleLoop :: "nat \<Rightarrow> 32 word \<Rightarrow> 'a list \<Rightarrow> 'a list" where
  "shuffleLoop 0 t a = a"
| "shuffleLoop (Suc k) t a =
     (let i = Suc k;
          (t', u) = mulberry32_next t;
          j = (unat u * (i + 1)) div 4294967296
      in shuffleLoop k t' (a[i := a ! j, j := a ! i]))"

definition seededShuffle :: "'a list \<Rightarrow> string \<Rightarrow> 'a list" where
  "seededShuffle arr seedStr =
     (let seed = (of_nat (cyrb53 seedStr 0) :: 32 word)
      in shuffleLoop (length arr - 1) seed arr)"

text \<open>
  The date string \<open>YYYY-MM-DD\<close> is modelled by the three numbers that
  \<open>dateStr.split("-").map(Number)\<close> reads from it. \<open>Date.UTC\<close> belongs to the platform
  and is a parameter: the milliseconds since the epoch of a year, a month index and a day.
\<close>

definition getUTCDayNumber :: "(int \<Rightarrow> int \<Rightarrow> int \<Rightarrow> int) \<Rightarrow> int \<times> int \<times> int \<Rightarrow> int" where
  "getUTCDayNumber dateUTC dateStr =
     (case dateStr of (y, m, d) \<Rightarrow> dateUTC y (m - 1) d div 86400000)"

text \<open>The operator \<open>%\<close> on integers: the remainder has the sign of the dividend.\<close>

definition jsRem :: "int \<Rightarrow> int \<Rightarrow> int" where
  "jsRem a b = sgn a * (\<bar>a\<bar> mod \<bar>b\<bar>)"

definition dayIndex :: "int \<Rightarrow> nat \<Rightarrow> int" where
  "dayIndex day len = jsRem (jsRem day (int len) + int len) (int len)"

text \<open>
  The body of \<open>pickDailyAnswer\<close> after the day number is known. Reading an array outside
  its range gives \<open>undefined\<close>, which the caller treats like \<open>null\<close>.
\<close>

definition answerForDay :: "company list \<Rightarrow> int \<Rightarrow> company option" where
  "answerForDay answerList day =
     (if answerList = [] then None
      else
        (let schedule = seededShuffle answerList ANSWER_SALT;
             idx = dayIndex day (length schedule)
         in if 0 \<le> idx \<and> nat idx < length schedule then Some (schedule ! nat idx) else None))"

definition pickDailyAnswer ::
  "(int \<Rightarrow> int \<Rightarrow> int \<Rightarrow> int) \<Rightarrow> company list \<Rightarrow> int \<times> int \<times> int \<Rightarrow> company option" where
  "pickDailyAnswer dateUTC answerList dateStr =
     answerForDay answerList (getUTCDayNumber dateUTC dateStr)"

section \<open>Text input and lookup\<close>

text \<open>
  The string functions of the platform, on ASCII: white space is tab, line feed,
  vertical tab, form feed, carriage return and space; case mapping moves the letters
  \<open>A\<close> to \<open>Z\<close> and \<open>a\<close> to \<open>z\<close> and leaves every other character alone.
\<close>

definition isSpace :: "char \<Rightarrow> bool" where
  "isSpace c = (c \<in> set [CHR 0x09, CHR 0x0A, CHR 0x0B, CHR 0x0C, CHR 0x0D, CHR '' ''])"

definition trim :: "string \<Rightarrow> string" where
  "trim s = rev (dropWhile isSpace (rev (dropWhile isSpace s)))"

definition lowerChar :: "char \<Rightarrow> char" where
  "lowerChar c =
     (let n = (of_char c :: nat) in if 65 \<le> n \<and> n \<le> 90 then char_of (n + 32) else c)"

definition upperChar :: "char \<Rightarrow> char" where
  "upperChar c =
     (let n = (of_char c :: nat) in if 97 \<le> n \<and> n \<le> 122 then char_of (n - 32) else c)"

definition toLowerCase :: "string \<Rightarrow> string" where
  "toLowerCase s = map lowerChar s"

definition toUpperCase :: "string \<Rightarrow> string" where
  "toUpperCase s = map upperChar s"

text \<open>The character class \<open>[a-z0-9]\<close>.\<close>

definition isLowerAlnum :: "char \<Rightarrow> bool" where
  "isLowerAlnum c =
     (let n = (of_char c :: nat) in (97 \<le> n \<and> n \<le> 122) \<or> (48 \<le> n \<and> n \<le> 57))"

text \<open>\<open>.replace(/&/g, " and ")\<close>\<close>

definition replaceAmp :: "string \<Rightarrow> string" where
  "replaceAmp s = concat (map (\<lambda>c. if c = CHR ''&'' then '' and '' else [c]) s)"

text \<open>\<open>.replace(/[^a-z0-9]+/g, " ")\<close>: every maximal run outside the class becomes one space.\<close>

function collapseRuns :: "string \<Rightarrow> string" where
  "collapseRuns [] = []"
| "collapseRuns (c # cs) =
     (if isLowerAlnum c then c # collapseRuns cs
      else CHR '' '' # collapseRuns (dropWhile (\<lambda>x. \<not> isLowerAlnum x) cs))"
  by pat_completeness auto
termination
  by (relation "measure length") (auto simp: length_dropWhile_le less_Suc_eq_le)

definition normalize :: "string \<Rightarrow> string" where
  "normalize s = trim (collapseRuns (replaceAmp (toLowerCase s)))"

text \<open>The module's data: the company list, the two lookup maps and the day's answer.\<close>

record gameData =
  companies :: "company list"
  byTicker :: "string \<Rightarrow> company option"
  byName :: "string \<Rightarrow> company option"
  answer :: "company option"

definition getSuggestions :: "company list \<Rightarrow> string \<Rightarrow> company list" where
  "getSuggestions cs query =
     (let q = normalize query
      in if q = [] then []
         else
           (let isPrefix = (\<lambda>c. prefix q (normalize (name c)) \<or> prefix q (toLowerCase (ticker c)));
                isInside = (\<lambda>c. sublist q (normalize (name c)) \<or> sublist q (toLowerCase (ticker c)))
            in take 12 (filter isPrefix cs @ filter (\<lambda>c. \<not> isPrefix c \<and> isInside c) cs)))"

text \<open>
  The lookup of \<open>submitGuess\<close>: exact ticker, then exact normalised name, then the only
  suggestion when there is exactly one.
\<close>

definition resolveCompany :: "gameData \<Rightarrow> string \<Rightarrow> company option" where
  "resolveCompany d raw =
     (let qNorm = normalize raw;
          qTicker = toUpperCase raw
      in case byTicker d qTicker of
           Some c \<Rightarrow> Some c
         | None \<Rightarrow>
             (case byName d qNorm of
                Some c \<Rightarrow> Some c
              | None \<Rightarrow>
                  (case getSuggestions (companies d) raw of
                     [c] \<Rightarrow> Some c
                   | _ \<Rightarrow> None)))"

section \<open>Stored state\<close>

text \<open>
  What \<open>localStorage\<close> holds under the game's key: nothing, a text that \<open>JSON.parse\<close>
  rejects (the empty text, which \<open>loadState\<close> tests first, is one), or a text that parses
  to a value. \<open>JSON.stringify\<close> followed by \<open>JSON.parse\<close> gives the value back, so a
  saved state is held as its value.
\<close>

datatype stored = Unparsable | Parsed json

text \<open>The truth value of a parsed value (\<open>!!v\<close>).\<close>

fun truthy :: "json \<Rightarrow> bool" where
  "truthy JNull = False"
| "truthy (JBool b) = b"
| "truthy (JNum n) = (n \<noteq> NaN \<and> n \<noteq> Fin 0)"
| "truthy (JStr s) = (s \<noteq> [])"
| "truthy (JArr _) = True"
| "truthy (JObj _) = True"

text \<open>Reading a member; a value that is not an object has no member of these names.\<close>

fun member :: "json \<Rightarrow> string \<Rightarrow> json option" where
  "member (JObj kvs) k = map_of kvs k"
| "member _ k = None"

definition freshState :: "string \<Rightarrow> session" where
  "freshState today = \<lparr>date = today, guesses = [], solved = False\<rparr>"

text \<open>
  \<open>loadState()\<close>, with the day that \<open>getTodayNY()\<close> returns and the stored item as
  arguments. The program reads the members \<open>date\<close>, \<open>guesses\<close> and \<open>solved\<close> of the
  state and no other, so the state is modelled by these three.
\<close>

definition loadState :: "string \<Rightarrow> stored option \<Rightarrow> session" where
  "loadState today item =
     (case item of
        None \<Rightarrow> freshState today
      | Some Unparsable \<Rightarrow> freshState today
      | Some (Parsed parsed) \<Rightarrow>
          (if \<not> truthy parsed \<or> member parsed ''date'' \<noteq> Some (JStr today)
           then freshState today
           else \<lparr>date = today,
                 guesses = (case member parsed ''guesses'' of Some (JArr xs) \<Rightarrow> xs | _ \<Rightarrow> []),
                 solved = (case member parsed ''solved'' of None \<Rightarrow> False | Some v \<Rightarrow> truthy v)\<rparr>))"

definition toJson :: "session \<Rightarrow> json" where
  "toJson state =
     JObj [(''date'', JStr (date state)),
           (''guesses'', JArr (guesses state)),
           (''solved'', JBool (solved state))]"

section \<open>Submitting a guess\<close>

text \<open>Everything \<open>submitGuess\<close> can change: the stored item and the page.\<close>

record world =
  storage :: "stored option"
  guessInputValue :: string
  controlsDisabled :: bool
  statusText :: string
  attemptsText :: string
  rows :: "cell list list"
  shareHidden :: bool
  suggestions :: "company list"

definition saveState :: "session \<Rightarrow> world \<Rightarrow> world" where
  "saveState state w = w\<lparr>storage := Some (Parsed (toJson state))\<rparr>"

definition setStatus :: "string \<Rightarrow> world \<Rightarrow> world" where
  "setStatus msg w = w\<lparr>statusText := msg\<rparr>"

definition setAttempts :: "nat \<Rightarrow> world \<Rightarrow> world" where
  "setAttempts used w = w\<lparr>attemptsText := string_of_nat used @ '' / '' @ string_of_nat MAX_GUESSES\<rparr>"

definition lockUI :: "bool \<Rightarrow> world \<Rightarrow> world" where
  "lockUI locked w = w\<lparr>controlsDisabled := locked\<rparr>"

definition showShareButtonIfFinished :: "session \<Rightarrow> world \<Rightarrow> world" where
  "showShareButtonIfFinished state w =
     (let finished = (solved state \<or> length (guesses state) \<ge> MAX_GUESSES)
      in w\<lparr>shareHidden := \<not> finished\<rparr>)"

definition hideSuggestions :: "world \<Rightarrow> world" where
  "hideSuggestions w = w\<lparr>suggestions := []\<rparr>"

definition answerText :: "company \<Rightarrow> string" where
  "answerText a = name a @ '' ('' @ ticker a @ '')''"

text \<open>
  The part of \<open>submitGuess\<close> after the guess has been accepted (from
  \<open>state.guesses.push\<close> on). A row is prepended to the board.
\<close>

definition acceptGuess :: "company \<Rightarrow> company \<Rightarrow> session \<Rightarrow> world \<Rightarrow> error + world" where
  "acceptGuess co a state w =
     (let state1 = state\<lparr>guesses := guesses state @ [JStr (ticker co)]\<rparr>
      in bindE (renderGuessRow co a) (\<lambda>row.
           (let w1 = hideSuggestions (w\<lparr>rows := row # rows w, guessInputValue := []\<rparr>);
                (state2, w2) =
                  (if ticker co = ticker a
                   then (state1\<lparr>solved := True\<rparr>,
                         lockUI True (setStatus (''Correct! The answer is '' @ answerText a @ ''.'') w1))
                   else if length (guesses state1) \<ge> MAX_GUESSES
                   then (state1,
                         lockUI True (setStatus (''Out of guesses. Answer was: '' @ answerText a @ ''.'') w1))
                   else (state1, setStatus ''Keep going!'' w1))
            in Inr (showShareButtonIfFinished state2
                      (saveState state2 (setAttempts (length (guesses state2)) w2))))))"

text \<open>
  \<open>submitGuess(inputValue)\<close>. The argument is absent when the button or the Enter key
  calls it; the text of the input field is read then.
\<close>

definition submitGuess :: "gameData \<Rightarrow> string \<Rightarrow> string option \<Rightarrow> world \<Rightarrow> error + world" where
  "submitGuess d today inputValue w =
     (let state = loadState today (storage w)
      in case answer d of
           None \<Rightarrow> Inr w
         | Some a \<Rightarrow>
             (if solved state
              then Inr (showShareButtonIfFinished state
                         (lockUI True (setStatus (''Already solved. Answer: '' @ answerText a @ ''.'') w)))
              else if length (guesses state) \<ge> MAX_GUESSES
              then Inr (showShareButtonIfFinished state
                         (lockUI True (setStatus (''Out of guesses. Answer was: '' @ answerText a @ ''.'') w)))
              else
                (let raw = trim (case inputValue of Some v \<Rightarrow> v | None \<Rightarrow> guessInputValue w)
                 in if raw = [] then Inr (setStatus ''Type a company name or ticker.'' w)
                    else
                      (case resolveCompany d raw of
                         None \<Rightarrow> Inr (setStatus ''No match. Try the official company name or ticker.'' w)
                       | Some co \<Rightarrow>
                           (if JStr (ticker co) \<in> set (guesses state)
                            then Inr (setStatus ''You already guessed that one.'' w)
                            else acceptGuess co a state w)))))"

section \<open>Notions used to state the properties\<close>

text \<open>An attribute value is absent (unknown): \<open>null\<close>, \<open>undefined\<close> or NaN.\<close>

definition isAbsent :: "jsval \<Rightarrow> bool" where
  "isAbsent v = (v = Null \<or> v = Undefined \<or> v = Num NaN)"

text \<open>
  Two attribute values lie in the same known bucket: neither is absent and
  \<open>bucketUpper\<close> gives both the same index.
\<close>

definition spec_sameKnownBucket :: "bucketDef list \<Rightarrow> jsval \<Rightarrow> jsval \<Rightarrow> bool" where
  "spec_sameKnownBucket defs gv av =
     (\<not> isAbsent gv \<and> \<not> isAbsent av
      \<and> map_sum id index (bucketUpper gv defs) = map_sum id index (bucketUpper av defs))"

text \<open>
  The three states of a session that the guards of \<open>submitGuess\<close> tell apart.
\<close>

datatype phase = Active | Solved | Exhausted

definition sessionPhase :: "session \<Rightarrow> phase" where
  "sessionPhase state =
     (if solved state then Solved
      else if length (guesses state) \<ge> MAX_GUESSES then Exhausted
      else Active)"

section \<open>Example data\<close>

definition exAnswer :: company where
  "exAnswer = \<lparr>name = ''Acme Corp'', ticker = ''ACM'', sector = Some ''Industrials'',
     hq = Some ''NY'', founded = Null, price = Num (Fin 42), marketCap = Num (Fin 20000000000),
     employees = Num (Fin 12000), pe = Null\<rparr>"

definition exGuess :: company where
  "exGuess = \<lparr>name = ''Bolt Inc'', ticker = ''BLT'', sector = Some ''Energy'',
     hq = Some ''TX'', founded = Null, price = Num (Fin 120), marketCap = Num (Fin 300000000000),
     employees = Num (Fin 70000), pe = Null\<rparr>"

definition exUnsolved :: session where
  "exUnsolved = \<lparr>date = ''2026-01-05'',
     guesses = [JStr ''A'', JStr ''B'', JStr ''C'', JStr ''D'', JStr ''E'', JStr ''F'', JStr ''G'', JStr ''H''],
     solved = False\<rparr>"

definition exList :: "company list" where
  "exList = [exAnswer, exGuess]"

text \<open>
  \<open>Date.UTC\<close> at midnight, for a year from 100 on, a month index from 0 to 11 and a day
  of that month: the days of the Gregorian calendar since 1 January 1970, in milliseconds.
\<close>

definition exDateUTC :: "int \<Rightarrow> int \<Rightarrow> int \<Rightarrow> int" where
  "exDateUTC y monthIndex d =
     (let m = monthIndex + 1;
          y' = (if m \<le> 2 then y - 1 else y);
          era = y' div 400;
          yoe = y' - era * 400;
          doy = (153 * (if m > 2 then m - 3 else m + 9) + 2) div 5 + d - 1;
          doe = yoe * 365 + yoe div 4 - yoe div 100 + doy
      in (era * 146097 + doe - 719468) * 86400000)"

definition exData :: gameData where
  "exData = \<lparr>companies = [exAnswer, exGuess],
     byTicker = map_of [(''ACM'', exAnswer), (''BLT'', exGuess)],
     byName = map_of [(''acme corp'', exAnswer), (''bolt inc'', exGuess)],
     answer = Some exAnswer\<rparr>"

definition exWorld :: world where
  "exWorld = \<lparr>storage = None, guessInputValue = '' bolt inc '', controlsDisabled = False,
     statusText = ''Make your first guess.'', attemptsText = ''0 / 8'', rows = [],
     shareHidden = True, suggestions = []\<rparr>"

definition exStored :: json where
  "exStored = JObj [(''date'', JStr ''2026-01-05''), (''guesses'', JStr ''none''),
                    (''solved'', JNum (Fin 1))]"

definition exPlayed :: world where
  "exPlayed = exWorld\<lparr>storage := Some (Parsed (JObj [(''date'', JStr ''2026-01-05''),
                 (''guesses'', JArr [JStr ''BLT'']), (''solved'', JBool False)])),
               guessInputValue := ''BLT''\<rparr>"

section \<open>Buckets: properties\<close>

lemma num_lt_irrefl: "\<not> num_lt x x"
  by (cases x) auto

lemma num_lt_asym: "num_lt x y \<Longrightarrow> \<not> num_lt y x"
  by (cases x; cases y) auto

lemma bucketScan_None_iff:
  "bucketScan v ds i = None \<longleftrightarrow> (\<forall>d \<in> set ds. \<not> num_lt v (upper d))"
  by (induction ds arbitrary: i) auto

lemma bucketScan_first:
  "k < length ds \<Longrightarrow> num_lt v (upper (ds ! k)) \<Longrightarrow> \<forall>j<k. \<not> num_lt v (upper (ds ! j))
   \<Longrightarrow> bucketScan v ds i = Some \<lparr>blabel = label (ds ! k), index = int (i + k)\<rparr>"
proof (induction ds arbitrary: i k)
  case Nil
  then show ?case by simp
next
  case (Cons d ds)
  show ?case
  proof (cases k)
    case 0
    with Cons.prems show ?thesis by simp
  next
    case (Suc k')
    from Cons.prems Suc have "\<not> num_lt v (upper d)" by auto
    moreover have "bucketScan v ds (Suc i) = Some \<lparr>blabel = label (ds ! k'), index = int (Suc i + k')\<rparr>"
      using Cons.prems Suc by (intro Cons.IH) auto
    ultimately show ?thesis using Suc by simp
  qed
qed

lemma bucketScan_range:
  "bucketScan v ds i = Some b \<Longrightarrow> int i \<le> index b \<and> index b < int (i + length ds)"
  by (induction ds arbitrary: i) (fastforce split: if_splits)+

lemma bucketUpper_present:
  "x \<noteq> NaN \<Longrightarrow> bucketUpper (Num x) defs =
     (case bucketScan x defs 0 of Some b \<Rightarrow> Inr b
      | None \<Rightarrow> if defs = [] then Inl TypeError
                else Inr \<lparr>blabel = label (last defs), index = int (length defs) - 1\<rparr>)"
  by (cases x) (simp_all add: bucketUpper_def)

lemma bucketUpper_absent:
  "isAbsent v \<Longrightarrow> bucketUpper v defs = Inr \<lparr>blabel = ''N/A'', index = - 1\<rparr>"
  by (auto simp: isAbsent_def bucketUpper_def)

lemma bucketUpper_present_range:
  assumes "\<not> isAbsent v" "bucketUpper v defs = Inr b"
  shows "0 \<le> index b \<and> index b < int (length defs)"
proof -
  from assms(1) obtain x where v: "v = Num x" and x: "x \<noteq> NaN"
    by (cases v) (auto simp: isAbsent_def)
  show ?thesis
  proof (cases "bucketScan x defs 0")
    case None
    with assms x show ?thesis by (auto simp: v bucketUpper_present split: if_splits)
  next
    case (Some b')
    with assms x have "b' = b" by (simp add: v bucketUpper_present)
    with Some bucketScan_range[of x defs 0 b] show ?thesis by simp
  qed
qed

lemma bucketUpper_nonempty:
  "defs \<noteq> [] \<Longrightarrow> \<exists>b. bucketUpper v defs = Inr b"
  by (cases v) (auto simp: bucketUpper_def split: number.splits option.splits)

lemma bucketUpper_first:
  assumes "x \<noteq> NaN" "k < length defs" "num_lt x (upper (defs ! k))"
    "\<forall>j<k. \<not> num_lt x (upper (defs ! j))"
  shows "bucketUpper (Num x) defs = Inr \<lparr>blabel = label (defs ! k), index = int k\<rparr>"
  using bucketScan_first[of k defs x 0] assms by (simp add: bucketUpper_present)

lemma bucketUpper_last:
  assumes "x \<noteq> NaN" "defs \<noteq> []" "\<forall>k. Suc k < length defs \<longrightarrow> \<not> num_lt x (upper (defs ! k))"
  shows "bucketUpper (Num x) defs = Inr \<lparr>blabel = label (last defs), index = int (length defs) - 1\<rparr>"
proof (cases "num_lt x (upper (last defs))")
  case True
  let ?k = "length defs - 1"
  have k: "?k < length defs" using assms(2) by simp
  have l: "last defs = defs ! ?k" using assms(2) by (simp add: last_conv_nth)
  have "\<forall>j<?k. \<not> num_lt x (upper (defs ! j))" using assms(3) by auto
  with bucketUpper_first[OF assms(1) k] True l
  have "bucketUpper (Num x) defs = Inr \<lparr>blabel = label (defs ! ?k), index = int ?k\<rparr>" by simp
  moreover have "int ?k = int (length defs) - 1" using assms(2) by (simp add: of_nat_diff Suc_leI)
  ultimately show ?thesis using l by simp
next
  case False
  have "\<forall>d \<in> set defs. \<not> num_lt x (upper d)"
  proof
    fix d assume "d \<in> set defs"
    then obtain j where j: "j < length defs" "d = defs ! j" by (auto simp: in_set_conv_nth)
    show "\<not> num_lt x (upper d)"
    proof (cases "Suc j < length defs")
      case True
      with assms(3) j show ?thesis by simp
    next
      case F: False
      with j have "j = length defs - 1" by simp
      with j assms(2) have "d = last defs" by (simp add: last_conv_nth)
      with False show ?thesis by simp
    qed
  qed
  then have "bucketScan x defs 0 = None" by (simp add: bucketScan_None_iff)
  with assms show ?thesis by (simp add: bucketUpper_present)
qed

lemma bucketUpper_boundary:
  assumes inc: "sorted_wrt (\<lambda>a b. num_lt (upper a) (upper b)) defs"
    and "x \<noteq> NaN" "Suc k < length defs" "upper (defs ! k) = x"
  shows "bucketUpper (Num x) defs = Inr \<lparr>blabel = label (defs ! Suc k), index = int (Suc k)\<rparr>"
proof -
  have lt: "num_lt (upper (defs ! i)) (upper (defs ! j))" if "i < j" "j < length defs" for i j
    using inc that by (simp add: sorted_wrt_iff_nth_less)
  have "num_lt x (upper (defs ! Suc k))" using lt[of k "Suc k"] assms by simp
  moreover have "\<forall>j<Suc k. \<not> num_lt x (upper (defs ! j))"
  proof (intro allI impI)
    fix j assume j: "j < Suc k"
    show "\<not> num_lt x (upper (defs ! j))"
    proof (cases "j = k")
      case True
      with assms show ?thesis by (simp add: num_lt_irrefl)
    next
      case False
      with j have "j < k" by simp
      with lt[of j k] assms have "num_lt (upper (defs ! j)) x" by simp
      then show ?thesis by (rule num_lt_asym)
    qed
  qed
  ultimately show ?thesis using bucketUpper_first[of x "Suc k" defs] assms by simp
qed

text \<open>
  C6, in the form that holds for the code. For a non-empty bucket definition with
  strictly increasing upper bounds and a present value: the value goes to the first
  bucket whose upper bound is strictly above it; a value equal to the upper bound of a
  bucket that is not the last goes to the next bucket; the last bucket takes every value
  that is not below any earlier bound, also a value at or above its own bound; an absent
  value (null, undefined, NaN) gets index -1, and a present value gets an index from 0
  up to the number of buckets.
\<close>

theorem bucketUpper_first_bucket_above:
  assumes "sorted_wrt (\<lambda>a b. num_lt (upper a) (upper b)) defs" and "defs \<noteq> []" and "x \<noteq> NaN"
  shows "(\<forall>k<length defs. num_lt x (upper (defs ! k)) \<and> (\<forall>j<k. \<not> num_lt x (upper (defs ! j)))
            \<longrightarrow> bucketUpper (Num x) defs = Inr \<lparr>blabel = label (defs ! k), index = int k\<rparr>)
       \<and> (\<forall>k. Suc k < length defs \<and> upper (defs ! k) = x
            \<longrightarrow> bucketUpper (Num x) defs
                  = Inr \<lparr>blabel = label (defs ! Suc k), index = int (Suc k)\<rparr>)
       \<and> ((\<forall>k. Suc k < length defs \<longrightarrow> \<not> num_lt x (upper (defs ! k)))
            \<longrightarrow> bucketUpper (Num x) defs
                  = Inr \<lparr>blabel = label (last defs), index = int (length defs) - 1\<rparr>)
       \<and> (\<forall>v. isAbsent v \<longrightarrow> bucketUpper v defs = Inr \<lparr>blabel = ''N/A'', index = - 1\<rparr>)
       \<and> (\<exists>b. bucketUpper (Num x) defs = Inr b \<and> 0 \<le> index b \<and> index b < int (length defs))"
proof (intro conjI allI impI)
  fix k assume "k < length defs"
    and "num_lt x (upper (defs ! k)) \<and> (\<forall>j<k. \<not> num_lt x (upper (defs ! j)))"
  then show "bucketUpper (Num x) defs = Inr \<lparr>blabel = label (defs ! k), index = int k\<rparr>"
    using bucketUpper_first[OF assms(3)] by blast
next
  fix k assume "Suc k < length defs \<and> upper (defs ! k) = x"
  then show "bucketUpper (Num x) defs = Inr \<lparr>blabel = label (defs ! Suc k), index = int (Suc k)\<rparr>"
    using bucketUpper_boundary[OF assms(1,3)] by blast
next
  assume "\<forall>k. Suc k < length defs \<longrightarrow> \<not> num_lt x (upper (defs ! k))"
  then show "bucketUpper (Num x) defs
      = Inr \<lparr>blabel = label (last defs), index = int (length defs) - 1\<rparr>"
    by (rule bucketUpper_last[OF assms(3,2)])
next
  fix v assume "isAbsent v"
  then show "bucketUpper v defs = Inr \<lparr>blabel = ''N/A'', index = - 1\<rparr>"
    by (rule bucketUpper_absent)
next
  from bucketUpper_nonempty[OF assms(2)] obtain b where b: "bucketUpper (Num x) defs = Inr b"
    by blast
  have "\<not> isAbsent (Num x)" using assms(3) by (simp add: isAbsent_def)
  from bucketUpper_present_range[OF this b] b
  show "\<exists>b. bucketUpper (Num x) defs = Inr b \<and> 0 \<le> index b \<and> index b < int (length defs)"
    by blast
qed

text \<open>
  C6, at the founding-year buckets: 1950 is the upper bound of the second bucket and is
  put into the third.
\<close>

theorem bucketUpper_first_bucket_above_witness:
  "sorted_wrt (\<lambda>a b. num_lt (upper a) (upper b)) BUCKETS_founded
   \<and> BUCKETS_founded \<noteq> [] \<and> Fin 1950 \<noteq> NaN
   \<and> Suc 1 < length BUCKETS_founded \<and> upper (BUCKETS_founded ! 1) = Fin 1950
   \<and> bucketUpper (Num (Fin 1950)) BUCKETS_founded
       = Inr \<lparr>blabel = ''1950'' @ ndash @ ''1969'', index = 2\<rparr>"
proof -
  have h1: "sorted_wrt (\<lambda>a b. num_lt (upper a) (upper b)) BUCKETS_founded"
    by (simp add: BUCKETS_founded_def)
  have h2: "BUCKETS_founded \<noteq> []" by (simp add: BUCKETS_founded_def)
  have h3: "Fin 1950 \<noteq> NaN" by simp
  have h4: "Suc 1 < length BUCKETS_founded \<and> upper (BUCKETS_founded ! 1) = Fin 1950"
    by (simp add: BUCKETS_founded_def)
  from bucketUpper_first_bucket_above[OF h1 h2 h3]
  have "\<forall>k. Suc k < length BUCKETS_founded \<and> upper (BUCKETS_founded ! k) = Fin 1950
          \<longrightarrow> bucketUpper (Num (Fin 1950)) BUCKETS_founded
                = Inr \<lparr>blabel = label (BUCKETS_founded ! Suc k), index = int (Suc k)\<rparr>"
    by blast
  with h4 have "bucketUpper (Num (Fin 1950)) BUCKETS_founded
      = Inr \<lparr>blabel = label (BUCKETS_founded ! Suc 1), index = int (Suc 1)\<rparr>"
    by blast
  moreover have "label (BUCKETS_founded ! Suc 1) = ''1950'' @ ndash @ ''1969''"
    by (simp add: BUCKETS_founded_def)
  ultimately show ?thesis using h1 h2 h4 by simp
qed

text \<open>
  C6 as stated fails at the last bucket: with the bounds 10 and 20 the value 20 equals
  the upper bound of the last bucket and stays in that bucket; with the P/E buckets the
  value Infinity equals the last bound and is put into the last bucket.
\<close>

theorem value_at_last_bound_stays_in_last_bucket:
  "sorted_wrt (\<lambda>a b. num_lt (upper a) (upper b))
     [\<lparr>label = ''low'', upper = Fin 10\<rparr>, \<lparr>label = ''high'', upper = Fin 20\<rparr>]
   \<and> upper ([\<lparr>label = ''low'', upper = Fin 10\<rparr>, \<lparr>label = ''high'', upper = Fin 20\<rparr>] ! 1) = Fin 20
   \<and> bucketUpper (Num (Fin 20)) [\<lparr>label = ''low'', upper = Fin 10\<rparr>, \<lparr>label = ''high'', upper = Fin 20\<rparr>]
       = Inr \<lparr>blabel = ''high'', index = 1\<rparr>
   \<and> upper (BUCKETS_pe ! 5) = PosInf
   \<and> bucketUpper (Num PosInf) BUCKETS_pe = Inr \<lparr>blabel = ''100+'', index = 5\<rparr>"
  by (simp add: bucketUpper_def BUCKETS_pe_def)

section \<open>Cells, tiles and share text: properties\<close>

lemma error_unique: "(e :: error) = e'"
  by (cases e; cases e') simp

lemma isOk_makeNumericCell [simp]: "isOk (makeNumericCell l ok arr) = ok"
  by (simp add: makeNumericCell_def)

lemma arrow_makeNumericCell_ok: "ok \<Longrightarrow> arrow (makeNumericCell l ok arr) = []"
  by (simp add: makeNumericCell_def)

lemma index_present_absent:
  assumes "defs \<noteq> []"
  obtains b where "bucketUpper v defs = Inr b" "isAbsent v \<longleftrightarrow> index b = - 1"
proof -
  from bucketUpper_nonempty[OF assms] obtain b where b: "bucketUpper v defs = Inr b" by blast
  show ?thesis
  proof (cases "isAbsent v")
    case True
    with b bucketUpper_absent[of v defs] have "index b = - 1" by auto
    with True b that show ?thesis by simp
  next
    case False
    from bucketUpper_present_range[OF False b] have "index b \<noteq> - 1" by simp
    with False b that show ?thesis by simp
  qed
qed

lemma numericCell_rule:
  assumes "defs \<noteq> []"
  shows "\<exists>c. numericCell defs gv av = Inr c \<and> (isOk c \<longleftrightarrow> spec_sameKnownBucket defs gv av)"
proof -
  obtain g where g: "bucketUpper gv defs = Inr g" "isAbsent gv \<longleftrightarrow> index g = - 1"
    using index_present_absent[OF assms] by blast
  obtain a where a: "bucketUpper av defs = Inr a" "isAbsent av \<longleftrightarrow> index a = - 1"
    using index_present_absent[OF assms] by blast
  show ?thesis using g a
    by (auto simp: numericCell_def bindE_def spec_sameKnownBucket_def)
qed

lemma peCell_rule:
  assumes "defs \<noteq> []"
  shows "\<exists>c. peCell defs gv av = Inr c
     \<and> (isOk c \<longleftrightarrow> spec_sameKnownBucket defs gv av \<or> (isAbsent gv \<and> isAbsent av))
     \<and> (isAbsent gv \<and> isAbsent av \<longrightarrow> arrow c = [])"
proof -
  obtain g where g: "bucketUpper gv defs = Inr g" "isAbsent gv \<longleftrightarrow> index g = - 1"
    using index_present_absent[OF assms] by blast
  obtain a where a: "bucketUpper av defs = Inr a" "isAbsent av \<longleftrightarrow> index a = - 1"
    using index_present_absent[OF assms] by blast
  show ?thesis using g a
    by (auto simp: peCell_def bindE_def spec_sameKnownBucket_def arrow_makeNumericCell_ok)
qed

lemma BUCKETS_nonempty:
  "BUCKETS_founded \<noteq> []" "BUCKETS_price \<noteq> []" "BUCKETS_marketCap \<noteq> []"
  "BUCKETS_employees \<noteq> []" "BUCKETS_pe \<noteq> []"
  by (simp_all add: BUCKETS_founded_def BUCKETS_price_def BUCKETS_marketCap_def
      BUCKETS_employees_def BUCKETS_pe_def)

text \<open>
  C2, in the form that holds for the code. In the row that \<open>renderGuessRow\<close> builds,
  the cells of founded, price, market cap and employees are a match exactly when both
  values lie in the same known bucket; the P/E cell is a match exactly when both values
  lie in the same known bucket or both are absent, and when both are absent it is a match
  without an arrow.
\<close>

theorem numeric_match_rule:
  "\<exists>row. renderGuessRow g a = Inr row \<and> length row = 8
     \<and> (isOk (row ! 3) \<longleftrightarrow> spec_sameKnownBucket BUCKETS_founded (founded g) (founded a))
     \<and> (isOk (row ! 4) \<longleftrightarrow> spec_sameKnownBucket BUCKETS_price (price g) (price a))
     \<and> (isOk (row ! 5) \<longleftrightarrow> spec_sameKnownBucket BUCKETS_marketCap (marketCap g) (marketCap a))
     \<and> (isOk (row ! 6) \<longleftrightarrow> spec_sameKnownBucket BUCKETS_employees (employees g) (employees a))
     \<and> (isOk (row ! 7) \<longleftrightarrow> spec_sameKnownBucket BUCKETS_pe (pe g) (pe a)
                              \<or> (isAbsent (pe g) \<and> isAbsent (pe a)))
     \<and> (isAbsent (pe g) \<and> isAbsent (pe a) \<longrightarrow> isOk (row ! 7) \<and> arrow (row ! 7) = [])"
proof -
  obtain c3 where c3: "numericCell BUCKETS_founded (founded g) (founded a) = Inr c3"
    "isOk c3 \<longleftrightarrow> spec_sameKnownBucket BUCKETS_founded (founded g) (founded a)"
    using numericCell_rule[OF BUCKETS_nonempty(1)] by blast
  obtain c4 where c4: "numericCell BUCKETS_price (price g) (price a) = Inr c4"
    "isOk c4 \<longleftrightarrow> spec_sameKnownBucket BUCKETS_price (price g) (price a)"
    using numericCell_rule[OF BUCKETS_nonempty(2)] by blast
  obtain c5 where c5: "numericCell BUCKETS_marketCap (marketCap g) (marketCap a) = Inr c5"
    "isOk c5 \<longleftrightarrow> spec_sameKnownBucket BUCKETS_marketCap (marketCap g) (marketCap a)"
    using numericCell_rule[OF BUCKETS_nonempty(3)] by blast
  obtain c6 where c6: "numericCell BUCKETS_employees (employees g) (employees a) = Inr c6"
    "isOk c6 \<longleftrightarrow> spec_sameKnownBucket BUCKETS_employees (employees g) (employees a)"
    using numericCell_rule[OF BUCKETS_nonempty(4)] by blast
  obtain c7 where c7: "peCell BUCKETS_pe (pe g) (pe a) = Inr c7"
    "isOk c7 \<longleftrightarrow> spec_sameKnownBucket BUCKETS_pe (pe g) (pe a) \<or> (isAbsent (pe g) \<and> isAbsent (pe a))"
    "isAbsent (pe g) \<and> isAbsent (pe a) \<longrightarrow> arrow c7 = []"
    using peCell_rule[OF BUCKETS_nonempty(5)] by blast
  obtain row where row: "renderGuessRow g a = Inr row" "length row = 8"
    "row ! 3 = c3" "row ! 4 = c4" "row ! 5 = c5" "row ! 6 = c6" "row ! 7 = c7"
    using c3(1) c4(1) c5(1) c6(1) c7(1) by (simp add: renderGuessRow_def bindE_def Let_def)
  show ?thesis
    using row c3(2) c4(2) c5(2) c6(2) c7(2,3) by (intro exI[of _ row]) simp
qed

text \<open>
  C2, at two companies whose P/E is null: the P/E cell is a match and has no arrow.
\<close>

theorem numeric_match_rule_witness:
  "isAbsent (pe exGuess) \<and> isAbsent (pe exAnswer)
   \<and> (\<exists>row. renderGuessRow exGuess exAnswer = Inr row \<and> isOk (row ! 7) \<and> arrow (row ! 7) = [])"
proof -
  have h: "isAbsent (pe exGuess) \<and> isAbsent (pe exAnswer)"
    by (simp add: isAbsent_def exGuess_def exAnswer_def)
  with numeric_match_rule[of exGuess exAnswer] show ?thesis by blast
qed

text \<open>
  C2 as stated fails for the founding year: with both values null the cell is not a match.
\<close>

theorem both_unknown_founded_is_mismatch:
  "isAbsent (founded exGuess) \<and> isAbsent (founded exAnswer)
   \<and> numericCell BUCKETS_founded (founded exGuess) (founded exAnswer)
       = Inr \<lparr>extraClass = [], isOk = False, textContent = ''N/A'', arrow = []\<rparr>"
  by (simp add: isAbsent_def exGuess_def exAnswer_def numericCell_def bindE_def bucketUpper_def
      makeNumericCell_def)

text \<open>
  The tiles of the share text against the cells of the row: a tile that compares two
  bucket indices is green when the cell is a match and also when both values are absent;
  the P/E tile is green exactly when the P/E cell is a match.
\<close>

lemma indexTile_rule:
  assumes "defs \<noteq> []"
  shows "\<exists>c. numericCell defs gv av = Inr c
     \<and> indexTile defs gv av
         = Inr (if isOk c \<or> (isAbsent gv \<and> isAbsent av) then greenTile else blackTile)"
proof -
  obtain g where g: "bucketUpper gv defs = Inr g" "isAbsent gv \<longleftrightarrow> index g = - 1"
    using index_present_absent[OF assms] by blast
  obtain a where a: "bucketUpper av defs = Inr a" "isAbsent av \<longleftrightarrow> index a = - 1"
    using index_present_absent[OF assms] by blast
  show ?thesis using g a
    by (auto simp: numericCell_def indexTile_def bindE_def)
qed

lemma peTile_rule:
  "\<exists>c. peCell defs gv av = Inr c \<and> peTile defs gv av = Inr (if isOk c then greenTile else blackTile)
   \<or> peCell defs gv av = Inl TypeError \<and> peTile defs gv av = Inl TypeError"
  by (cases "bucketUpper gv defs"; cases "bucketUpper av defs")
     (auto simp: peCell_def peTile_def bindE_def Let_def intro: error_unique)

text \<open>
  C1 at two companies whose founding year is null: the cell of the row is \<open>bad\<close>
  (fourth cell, after company, sector and hq), the tile of the share text is green
  (third tile).
\<close>

theorem share_tiles_differ_from_row:
  "map_sum id (map isOk) (renderGuessRow exGuess exAnswer)
     = Inr [False, False, False, False, False, False, False, True]
   \<and> guessTiles exGuess exAnswer
     = Inr [blackTile, blackTile, greenTile, blackTile, blackTile, blackTile, greenTile]"
  by (simp add: exGuess_def exAnswer_def renderGuessRow_def guessTiles_def numericCell_def
      peCell_def indexTile_def peTile_def bindE_def bucketUpper_def makeNumericCell_def
      makeCell_def orElse_def BUCKETS_founded_def BUCKETS_price_def BUCKETS_marketCap_def
      BUCKETS_employees_def BUCKETS_pe_def)

text \<open>
  Away from NaN the arrow and the match are regular: for two numbers the arrow is
  up exactly when the guess is below the answer, down exactly when it is above, and none
  exactly when they are equal; \<open>null\<close> and \<open>undefined\<close> give no arrow; and whether a
  cell is a match does not depend on the order of the two values.
\<close>

lemma num_lt_total: "x \<noteq> NaN \<Longrightarrow> y \<noteq> NaN \<Longrightarrow> num_lt x y \<or> x = y \<or> num_lt y x"
  by (cases x; cases y) auto

lemma num_eq_present: "x \<noteq> NaN \<Longrightarrow> y \<noteq> NaN \<Longrightarrow> num_eq x y \<longleftrightarrow> x = y"
  by (cases x; cases y) auto

lemma arrows_differ:
  "arrowUp \<noteq> arrowDown" "arrowDown \<noteq> arrowUp" "arrowUp \<noteq> []" "arrowDown \<noteq> []"
  "[] \<noteq> arrowUp" "[] \<noteq> arrowDown"
  by (simp_all add: arrowUp_def arrowDown_def)

lemma arrowFor_present:
  assumes "x \<noteq> NaN" "y \<noteq> NaN"
  shows "(arrowFor (Num x) (Num y) = arrowUp \<longleftrightarrow> num_lt x y)
       \<and> (arrowFor (Num x) (Num y) = arrowDown \<longleftrightarrow> num_lt y x)
       \<and> (arrowFor (Num x) (Num y) = [] \<longleftrightarrow> x = y)
       \<and> (x \<noteq> y \<longrightarrow> (arrowFor (Num x) (Num y) = arrowUp \<longleftrightarrow> arrowFor (Num y) (Num x) = arrowDown))"
  using assms num_lt_total[OF assms] num_lt_asym[of x y] num_lt_asym[of y x] num_lt_irrefl[of x]
  by (auto simp: num_eq_present arrows_differ)

lemma arrowFor_null_undefined:
  "g = Null \<or> g = Undefined \<or> a = Null \<or> a = Undefined \<Longrightarrow> arrowFor g a = []"
  by (cases g; cases a) auto

lemma numericCell_symmetric:
  "map_sum id isOk (numericCell defs a b) = map_sum id isOk (numericCell defs b a)"
  by (cases "bucketUpper a defs"; cases "bucketUpper b defs")
     (auto simp: numericCell_def bindE_def intro: error_unique)

lemma peCell_symmetric:
  "map_sum id isOk (peCell defs a b) = map_sum id isOk (peCell defs b a)"
  by (cases "bucketUpper a defs"; cases "bucketUpper b defs")
     (auto simp: peCell_def bindE_def intro: error_unique)

text \<open>
  C7 at a NaN value: \<open>bucketUpper\<close> treats NaN as absent, \<open>arrowFor\<close> returns the down
  arrow for it in both argument orders, and the cell shows N/A with a down arrow.
\<close>

theorem arrowFor_NaN_gives_down:
  "isAbsent (Num NaN)
   \<and> arrowFor (Num NaN) (Num (Fin 1950)) = arrowDown
   \<and> arrowFor (Num (Fin 1950)) (Num NaN) = arrowDown
   \<and> numericCell BUCKETS_founded (Num NaN) (Num (Fin 1950))
       = Inr \<lparr>extraClass = [], isOk = False, textContent = ''N/A'', arrow = arrowDown\<rparr>"
  by (simp add: isAbsent_def numericCell_def bindE_def bucketUpper_def makeNumericCell_def
      BUCKETS_founded_def arrowDown_def)

lemma indexTile_total: "defs \<noteq> [] \<Longrightarrow> \<exists>t. indexTile defs gv av = Inr t"
  using bucketUpper_nonempty[of defs gv] bucketUpper_nonempty[of defs av]
  by (auto simp: indexTile_def bindE_def)

lemma peTile_total: "defs \<noteq> [] \<Longrightarrow> \<exists>t. peTile defs gv av = Inr t"
  using bucketUpper_nonempty[of defs gv] bucketUpper_nonempty[of defs av]
  by (auto simp: peTile_def bindE_def Let_def)

lemma guessTiles_total: "\<exists>ts. guessTiles g a = Inr ts"
proof -
  obtain t3 where "indexTile BUCKETS_founded (founded g) (founded a) = Inr t3"
    using indexTile_total[OF BUCKETS_nonempty(1)] by blast
  moreover obtain t4 where "indexTile BUCKETS_price (price g) (price a) = Inr t4"
    using indexTile_total[OF BUCKETS_nonempty(2)] by blast
  moreover obtain t5 where "indexTile BUCKETS_marketCap (marketCap g) (marketCap a) = Inr t5"
    using indexTile_total[OF BUCKETS_nonempty(3)] by blast
  moreover obtain t6 where "indexTile BUCKETS_employees (employees g) (employees a) = Inr t6"
    using indexTile_total[OF BUCKETS_nonempty(4)] by blast
  moreover obtain t7 where "peTile BUCKETS_pe (pe g) (pe a) = Inr t7"
    using peTile_total[OF BUCKETS_nonempty(5)] by blast
  ultimately show ?thesis by (simp add: guessTiles_def bindE_def Let_def)
qed

lemma shareLines_total: "\<exists>ls. shareLines bt a ts = Inr ls"
proof (induction ts)
  case Nil
  then show ?case by simp
next
  case (Cons t ts)
  then obtain ls where ls: "shareLines bt a ts = Inr ls" by blast
  show ?case
  proof (cases "getByTicker bt t")
    case None
    with ls show ?thesis by simp
  next
    case (Some g)
    obtain tiles where "guessTiles g a = Inr tiles" using guessTiles_total by blast
    with Some ls show ?thesis by (simp add: bindE_def)
  qed
qed

lemma string_of_nat_8: "string_of_nat MAX_GUESSES = ''8''"
  by (simp add: MAX_GUESSES_def string_of_nat.simps digit_def)

text \<open>
  C10. The header line of the share text of a session that is not solved ends in
  \<open>Unsolved (0/8)\<close>, whatever the number of guesses; that of a solved session ends in
  \<open>Solved in n/8\<close> with \<open>n\<close> the number of guesses.
\<close>

theorem share_header_attempt_count:
  "(\<not> solved s \<longrightarrow>
      (\<exists>rest. makeShareText bt a url s
         = Inr (''Companydle '' @ date s @ '' '' @ mdash @ '' Unsolved (0/8)'' @ newline @ rest)))
   \<and> (solved s \<longrightarrow>
      (\<exists>rest. makeShareText bt a url s
         = Inr (''Companydle '' @ date s @ '' '' @ mdash @ '' Solved in ''
                @ string_of_nat (length (guesses s)) @ ''/8'' @ newline @ rest)))"
proof -
  obtain ls where "shareLines bt a (guesses s) = Inr ls" using shareLines_total by blast
  then show ?thesis
    by (simp add: makeShareText_def bindE_def resultLine_def string_of_nat_8)
qed

text \<open>
  C10, at a session with eight guesses, unsolved and solved.
\<close>

theorem share_header_attempt_count_witness:
  "\<not> solved exUnsolved \<and> length (guesses exUnsolved) = 8
   \<and> (\<exists>rest. makeShareText Map.empty exAnswer ''https://example.org/'' exUnsolved
         = Inr (''Companydle 2026-01-05 '' @ mdash @ '' Unsolved (0/8)'' @ newline @ rest))
   \<and> solved (exUnsolved\<lparr>solved := True\<rparr>)
   \<and> (\<exists>rest. makeShareText Map.empty exAnswer ''https://example.org/'' (exUnsolved\<lparr>solved := True\<rparr>)
         = Inr (''Companydle 2026-01-05 '' @ mdash @ '' Solved in 8/8'' @ newline @ rest))"
proof -
  have h: "\<not> solved exUnsolved" "solved (exUnsolved\<lparr>solved := True\<rparr>)"
    by (simp_all add: exUnsolved_def)
  have d: "date exUnsolved = ''2026-01-05''" "length (guesses exUnsolved) = 8"
    by (simp_all add: exUnsolved_def)
  have n: "string_of_nat 8 = ''8''" by (simp add: string_of_nat.simps digit_def)
  from share_header_attempt_count[of exUnsolved Map.empty exAnswer "''https://example.org/''"]
       share_header_attempt_count[of "exUnsolved\<lparr>solved := True\<rparr>" Map.empty exAnswer "''https://example.org/''"]
  show ?thesis using h d n by simp
qed

section \<open>The daily answer: properties\<close>

lemma shuffleLoop_mset: "k < length a \<Longrightarrow> mset (shuffleLoop k t a) = mset a"
proof (induction k arbitrary: t a)
  case 0
  then show ?case by simp
next
  case (Suc k)
  obtain t' u where tu: "mulberry32_next t = (t', u)" by (cases "mulberry32_next t")
  let ?j = "(unat u * (Suc k + 1)) div 4294967296"
  have u: "unat u < 4294967296" using unsigned_less[of u] by simp
  have "(Suc k + 1) * unat u < (Suc k + 1) * 4294967296"
    by (rule mult_less_mono2) (use u in simp_all)
  then have "unat u * (Suc k + 1) < (Suc k + 1) * 4294967296"
    by (simp only: mult.commute)
  then have "?j < Suc k + 1" by (rule less_mult_imp_div_less)
  then have j: "?j < length a" using Suc.prems by simp
  let ?a' = "a[Suc k := a ! ?j, ?j := a ! Suc k]"
  have "mset ?a' = mset a" using mset_swap[OF j Suc.prems] by simp
  moreover have "mset (shuffleLoop k t' ?a') = mset ?a'"
    using Suc.prems by (intro Suc.IH) simp
  ultimately show ?case using tu by (simp add: Let_def)
qed

lemma seededShuffle_mset: "mset (seededShuffle arr seedStr) = mset arr"
proof (cases "arr = []")
  case True
  then show ?thesis by (simp add: seededShuffle_def)
next
  case False
  then have "length arr - 1 < length arr" by simp
  then show ?thesis by (simp add: seededShuffle_def shuffleLoop_mset)
qed

lemma seededShuffle_length: "length (seededShuffle arr seedStr) = length arr"
  using seededShuffle_mset[of arr seedStr] by (rule mset_eq_length)

lemma seededShuffle_set: "set (seededShuffle arr seedStr) = set arr"
  using seededShuffle_mset[of arr seedStr] by (rule mset_eq_setD)

lemma seededShuffle_distinct: "distinct (seededShuffle arr seedStr) = distinct arr"
  using seededShuffle_mset[of arr seedStr] by (rule mset_eq_imp_distinct_iff)

lemma jsRem_pos: "0 \<le> a \<Longrightarrow> 0 < b \<Longrightarrow> jsRem a b = a mod b"
  by (cases "a = 0") (simp_all add: jsRem_def)

lemma jsRem_bounds: "0 < b \<Longrightarrow> - b < jsRem a b \<and> jsRem a b < b"
proof -
  assume b: "0 < b"
  have "0 \<le> \<bar>a\<bar> mod \<bar>b\<bar>" "\<bar>a\<bar> mod \<bar>b\<bar> < b" using b by simp_all
  then show ?thesis by (cases "a < 0"; cases "a = 0") (simp_all add: jsRem_def)
qed

lemma jsRem_cong: "0 < b \<Longrightarrow> jsRem a b mod b = a mod b"
proof (cases "a < 0")
  case False
  assume "0 < b"
  with False show ?thesis by (simp add: jsRem_pos)
next
  case True
  assume b: "0 < b"
  from True have "jsRem a b = - ((- a) mod b)" using b by (simp add: jsRem_def)
  then show ?thesis by (simp add: mod_minus_eq)
qed

lemma dayIndex_mod: "0 < len \<Longrightarrow> dayIndex day len = day mod int len"
proof -
  assume len: "0 < len"
  let ?b = "int len"
  have b: "0 < ?b" using len by simp
  from jsRem_bounds[OF b, of day] have "0 \<le> jsRem day ?b + ?b" by simp
  then have "dayIndex day len = (jsRem day ?b + ?b) mod ?b"
    using b by (simp add: dayIndex_def jsRem_pos)
  also have "\<dots> = jsRem day ?b mod ?b" by simp
  also have "\<dots> = day mod ?b" using b by (rule jsRem_cong)
  finally show ?thesis .
qed

lemma answerForDay_nth:
  assumes "answerList \<noteq> []"
  shows "answerForDay answerList day
     = Some (seededShuffle answerList ANSWER_SALT ! nat (day mod int (length answerList)))"
proof -
  have len: "0 < length answerList" using assms by simp
  have "0 \<le> day mod int (length answerList)" "day mod int (length answerList) < int (length answerList)"
    using len by simp_all
  then show ?thesis using assms len
    by (simp add: answerForDay_def Let_def seededShuffle_length dayIndex_mod nat_less_iff)
qed

lemma window_is_rotation:
  assumes "xs \<noteq> []"
  shows "map (\<lambda>i. xs ! nat ((k + int i) mod int (length xs))) [0..<length xs]
         = rotate (nat (k mod int (length xs))) xs"
proof (rule nth_equalityI)
  show "length (map (\<lambda>i. xs ! nat ((k + int i) mod int (length xs))) [0..<length xs])
        = length (rotate (nat (k mod int (length xs))) xs)" by simp
next
  fix i assume "i < length (map (\<lambda>i. xs ! nat ((k + int i) mod int (length xs))) [0..<length xs])"
  then have i: "i < length xs" by simp
  let ?n = "int (length xs)"
  have n: "0 < ?n" using assms by simp
  have "(k + int i) mod ?n = (k mod ?n + int i) mod ?n" by (simp add: mod_add_left_eq)
  also have "\<dots> = int ((nat (k mod ?n) + i) mod length xs)"
    using n by (simp add: zmod_int)
  finally have "nat ((k + int i) mod ?n) = (nat (k mod ?n) + i) mod length xs" by simp
  then show "map (\<lambda>i. xs ! nat ((k + int i) mod int (length xs))) [0..<length xs] ! i
             = rotate (nat (k mod int (length xs))) xs ! i"
    using i by (simp add: nth_rotate)
qed

lemma mset_rotate_eq: "mset (rotate n xs) = mset xs"
proof -
  have "mset (drop m xs @ take m xs) = mset (take m xs @ drop m xs)" for m
    by (simp only: mset_append add.commute)
  then show ?thesis by (simp add: rotate_drop_take)
qed

text \<open>
  C3. For a non-empty company list with pairwise different tickers: the index computed
  from a day number is never negative and always below the length of the list; every day
  has an answer from the list; two day numbers give the same company exactly when they
  are congruent modulo the length of the list; over any window of that many consecutive
  days the answers are the companies of the list, each exactly once; and
  \<open>pickDailyAnswer\<close> gives two dates the same company exactly when their day numbers are
  congruent, the day number of a date being its \<open>Date.UTC\<close> value divided by 86400000
  and rounded down; over dates whose \<open>Date.UTC\<close> values are 86400000 apart, as many as
  the list is long, \<open>pickDailyAnswer\<close> gives every company of the list exactly once.
\<close>

theorem daily_answer_cycle:
  assumes "answerList \<noteq> []" and "distinct (map ticker answerList)"
  shows "(\<forall>day. 0 \<le> dayIndex day (length answerList)
              \<and> dayIndex day (length answerList) < int (length answerList))
       \<and> (\<forall>day. \<exists>c \<in> set answerList. answerForDay answerList day = Some c)
       \<and> (\<forall>d1 d2. answerForDay answerList d1 = answerForDay answerList d2
              \<longleftrightarrow> d1 mod int (length answerList) = d2 mod int (length answerList))
       \<and> (\<forall>k. mset (map (\<lambda>i. answerForDay answerList (k + int i)) [0..<length answerList])
              = image_mset Some (mset answerList))
       \<and> (\<forall>k. \<forall>c \<in> set answerList.
              \<exists>!i. i < length answerList \<and> answerForDay answerList (k + int i) = Some c)
       \<and> (\<forall>dateUTC s1 s2.
              pickDailyAnswer dateUTC answerList s1 = pickDailyAnswer dateUTC answerList s2
              \<longleftrightarrow> getUTCDayNumber dateUTC s1 mod int (length answerList)
                  = getUTCDayNumber dateUTC s2 mod int (length answerList))
       \<and> (\<forall>dateUTC y1 m1 d1 y2 m2 d2.
              pickDailyAnswer dateUTC answerList (y1, m1, d1)
                = pickDailyAnswer dateUTC answerList (y2, m2, d2)
              \<longleftrightarrow> (dateUTC y1 (m1 - 1) d1 div 86400000) mod int (length answerList)
                  = (dateUTC y2 (m2 - 1) d2 div 86400000) mod int (length answerList))
       \<and> (\<forall>dateUTC dates base.
              (\<forall>i<length answerList.
                 (case dates i of (y, m, d) \<Rightarrow> dateUTC y (m - 1) d) = base + 86400000 * int i)
              \<longrightarrow> mset (map (\<lambda>i. pickDailyAnswer dateUTC answerList (dates i))
                          [0..<length answerList])
                    = image_mset Some (mset answerList)
                \<and> (\<forall>c \<in> set answerList.
                      \<exists>!i. i < length answerList
                           \<and> pickDailyAnswer dateUTC answerList (dates i) = Some c))"
proof -
  let ?n = "length answerList"
  let ?s = "seededShuffle answerList ANSWER_SALT"
  have n: "0 < ?n" using assms(1) by simp
  have dl: "distinct answerList" using assms(2) by (simp add: distinct_map)
  have ds: "distinct ?s" using dl by (simp add: seededShuffle_distinct)
  have ls: "length ?s = ?n" by (rule seededShuffle_length)
  have sne: "?s \<noteq> []" using ls assms(1) by auto
  have rng: "nat (d mod int ?n) < ?n" for d using n by (simp add: nat_less_iff)
  have a: "\<forall>day. 0 \<le> dayIndex day ?n \<and> dayIndex day ?n < int ?n"
    using n by (simp add: dayIndex_mod)
  have b: "\<forall>day. \<exists>c \<in> set answerList. answerForDay answerList day = Some c"
  proof
    fix day
    have "?s ! nat (day mod int ?n) \<in> set ?s" using rng ls by simp
    then show "\<exists>c \<in> set answerList. answerForDay answerList day = Some c"
      by (simp add: answerForDay_nth[OF assms(1)] seededShuffle_set)
  qed
  have c: "answerForDay answerList d1 = answerForDay answerList d2
             \<longleftrightarrow> d1 mod int ?n = d2 mod int ?n" for d1 d2
  proof -
    have "answerForDay answerList d1 = answerForDay answerList d2
            \<longleftrightarrow> ?s ! nat (d1 mod int ?n) = ?s ! nat (d2 mod int ?n)"
      by (simp add: answerForDay_nth[OF assms(1)])
    also have "\<dots> \<longleftrightarrow> nat (d1 mod int ?n) = nat (d2 mod int ?n)"
      using ds rng ls by (simp add: nth_eq_iff_index_eq)
    also have "\<dots> \<longleftrightarrow> d1 mod int ?n = d2 mod int ?n"
      using n by (simp add: nat_eq_iff)
    finally show ?thesis .
  qed
  have rot: "map (\<lambda>i. ?s ! nat ((k + int i) mod int ?n)) [0..<?n]
               = rotate (nat (k mod int ?n)) ?s" for k
    using window_is_rotation[OF sne, of k] by (simp only: ls)
  have win: "map (\<lambda>i. answerForDay answerList (k + int i)) [0..<?n]
               = map Some (rotate (nat (k mod int ?n)) ?s)" for k
  proof -
    have "map (\<lambda>i. answerForDay answerList (k + int i)) [0..<?n]
            = map Some (map (\<lambda>i. ?s ! nat ((k + int i) mod int ?n)) [0..<?n])"
      by (simp add: answerForDay_nth[OF assms(1)])
    also have "\<dots> = map Some (rotate (nat (k mod int ?n)) ?s)"
      by (simp only: rot)
    finally show ?thesis .
  qed
  have d: "\<forall>k. mset (map (\<lambda>i. answerForDay answerList (k + int i)) [0..<?n])
              = image_mset Some (mset answerList)"
    by (simp only: win) (simp add: mset_rotate_eq seededShuffle_mset)
  have e: "\<forall>k. \<forall>c \<in> set answerList.
              \<exists>!i. i < ?n \<and> answerForDay answerList (k + int i) = Some c"
  proof (intro allI ballI)
    fix k c assume cin: "c \<in> set answerList"
    let ?r = "rotate (nat (k mod int ?n)) ?s"
    have dr: "distinct ?r" using ds by simp
    have lr: "length ?r = ?n" using ls by simp
    have "c \<in> set ?r" using cin by (simp add: seededShuffle_set)
    then obtain i0 where "i0 < length ?r" "?r ! i0 = c" by (meson in_set_conv_nth)
    then obtain i where i: "i < ?n" "?r ! i = c" using lr by metis
    have nth: "answerForDay answerList (k + int j) = Some (?r ! j)" if "j < ?n" for j
    proof -
      have "map (\<lambda>i. answerForDay answerList (k + int i)) [0..<?n] ! j = map Some ?r ! j"
        by (simp only: win)
      then show ?thesis using that lr by simp
    qed
    show "\<exists>!i. i < ?n \<and> answerForDay answerList (k + int i) = Some c"
    proof (rule ex1I[of _ i])
      show "i < ?n \<and> answerForDay answerList (k + int i) = Some c" using i nth by simp
    next
      fix j assume j: "j < ?n \<and> answerForDay answerList (k + int j) = Some c"
      then have "Some (?r ! j) = Some c" using nth[of j] by simp
      then have "?r ! j = ?r ! i" using i by simp
      moreover have "j < length ?r" "i < length ?r" using j i ls by simp_all
      ultimately show "j = i" using nth_eq_iff_index_eq[OF dr] by blast
    qed
  qed
  have f: "\<forall>dateUTC s1 s2.
              pickDailyAnswer dateUTC answerList s1 = pickDailyAnswer dateUTC answerList s2
              \<longleftrightarrow> getUTCDayNumber dateUTC s1 mod int ?n = getUTCDayNumber dateUTC s2 mod int ?n"
    by (simp add: pickDailyAnswer_def c)
  have g: "\<forall>dateUTC y1 m1 d1 y2 m2 d2.
              pickDailyAnswer dateUTC answerList (y1, m1, d1)
                = pickDailyAnswer dateUTC answerList (y2, m2, d2)
              \<longleftrightarrow> (dateUTC y1 (m1 - 1) d1 div 86400000) mod int ?n
                  = (dateUTC y2 (m2 - 1) d2 div 86400000) mod int ?n"
    by (simp add: pickDailyAnswer_def getUTCDayNumber_def c)
  have h: "\<forall>dateUTC dates base.
              (\<forall>i<?n. (case dates i of (y, m, d) \<Rightarrow> dateUTC y (m - 1) d) = base + 86400000 * int i)
              \<longrightarrow> mset (map (\<lambda>i. pickDailyAnswer dateUTC answerList (dates i)) [0..<?n])
                    = image_mset Some (mset answerList)
                \<and> (\<forall>c \<in> set answerList.
                      \<exists>!i. i < ?n \<and> pickDailyAnswer dateUTC answerList (dates i) = Some c)"
  proof (intro allI impI)
    fix dateUTC :: "int \<Rightarrow> int \<Rightarrow> int \<Rightarrow> int" and dates :: "nat \<Rightarrow> int \<times> int \<times> int" and base :: int
    assume step: "\<forall>i<?n. (case dates i of (y, m, d) \<Rightarrow> dateUTC y (m - 1) d)
                            = base + 86400000 * int i"
    let ?k = "base div 86400000"
    have day: "getUTCDayNumber dateUTC (dates i) = ?k + int i" if "i < ?n" for i
    proof -
      have "getUTCDayNumber dateUTC (dates i) = (base + 86400000 * int i) div 86400000"
        using step that by (auto simp: getUTCDayNumber_def split: prod.splits)
      also have "\<dots> = ?k + int i" by simp
      finally show ?thesis .
    qed
    have pick: "pickDailyAnswer dateUTC answerList (dates i) = answerForDay answerList (?k + int i)"
      if "i < ?n" for i
      using day[OF that] by (simp add: pickDailyAnswer_def)
    have "map (\<lambda>i. pickDailyAnswer dateUTC answerList (dates i)) [0..<?n]
            = map (\<lambda>i. answerForDay answerList (?k + int i)) [0..<?n]"
      by (rule map_cong) (simp_all add: pick)
    then have m: "mset (map (\<lambda>i. pickDailyAnswer dateUTC answerList (dates i)) [0..<?n])
                    = image_mset Some (mset answerList)"
      using d by (simp only:)
    have u: "\<forall>c \<in> set answerList.
               \<exists>!i. i < ?n \<and> pickDailyAnswer dateUTC answerList (dates i) = Some c"
    proof
      fix c assume "c \<in> set answerList"
      with e have "\<exists>!i. i < ?n \<and> answerForDay answerList (?k + int i) = Some c" by blast
      then show "\<exists>!i. i < ?n \<and> pickDailyAnswer dateUTC answerList (dates i) = Some c"
        using pick by (metis (no_types, lifting))
    qed
    from m u show "mset (map (\<lambda>i. pickDailyAnswer dateUTC answerList (dates i)) [0..<?n])
                    = image_mset Some (mset answerList)
                \<and> (\<forall>c \<in> set answerList.
                      \<exists>!i. i < ?n \<and> pickDailyAnswer dateUTC answerList (dates i) = Some c)"
      by blast
  qed
  from a b c d e f g h show ?thesis by blast
qed

text \<open>
  C3, at a list of two companies: days -3 and 20455 are both odd and share their answer,
  days 20455 and 20456 have different answers, and the two together are the whole list;
  5 and 6 January 2026 are one day apart, have different answers that together are the
  whole list, and 7 January has the answer of 5 January again.
\<close>

theorem daily_answer_cycle_witness:
  "exList \<noteq> [] \<and> distinct (map ticker exList)
   \<and> exDateUTC 2026 (1 - 1) 5 = 1767571200000
   \<and> exDateUTC 2026 (1 - 1) 6 = 1767571200000 + 86400000
   \<and> (answerForDay exList (- 3) = answerForDay exList 20455)
   \<and> (answerForDay exList 20455 \<noteq> answerForDay exList 20456)
   \<and> mset [answerForDay exList 20455, answerForDay exList 20456] = {#Some exAnswer, Some exGuess#}
   \<and> mset [pickDailyAnswer exDateUTC exList (2026, 1, 5),
            pickDailyAnswer exDateUTC exList (2026, 1, 6)] = {#Some exAnswer, Some exGuess#}
   \<and> pickDailyAnswer exDateUTC exList (2026, 1, 5) \<noteq> pickDailyAnswer exDateUTC exList (2026, 1, 6)
   \<and> pickDailyAnswer exDateUTC exList (2026, 1, 7) = pickDailyAnswer exDateUTC exList (2026, 1, 5)"
proof -
  have h1: "exList \<noteq> []" by (simp add: exList_def)
  have h2: "distinct (map ticker exList)" by (simp add: exList_def exAnswer_def exGuess_def)
  have len: "length exList = 2" by (simp add: exList_def)
  have utc: "exDateUTC 2026 0 (5 + k) = 1767571200000 + 86400000 * k" for k
    by (simp add: exDateUTC_def Let_def algebra_simps)
  have h3: "\<forall>i<length exList.
         (case (2026, 1, 5 + int i) of (y, m, d) \<Rightarrow> exDateUTC y (m - 1) d)
           = 1767571200000 + 86400000 * int i"
    by (simp add: utc)
  note t = daily_answer_cycle[OF h1 h2]
  note tc = t[THEN conjunct2, THEN conjunct2, THEN conjunct1]
  note td = t[THEN conjunct2, THEN conjunct2, THEN conjunct2, THEN conjunct1]
  note tg = t[THEN conjunct2, THEN conjunct2, THEN conjunct2, THEN conjunct2, THEN conjunct2,
              THEN conjunct2, THEN conjunct1]
  note th = t[THEN conjunct2, THEN conjunct2, THEN conjunct2, THEN conjunct2, THEN conjunct2,
              THEN conjunct2, THEN conjunct2]
  have eq: "answerForDay exList d1 = answerForDay exList d2 \<longleftrightarrow> d1 mod 2 = d2 mod 2" for d1 d2
    using tc by (simp add: len)
  from td have "mset (map (\<lambda>i. answerForDay exList (20455 + int i)) [0..<2])
              = image_mset Some (mset exList)" by (simp only: len)
  then have w: "mset [answerForDay exList 20455, answerForDay exList 20456] = {#Some exAnswer, Some exGuess#}"
    by (simp add: exList_def upt_rec numeral_2_eq_2)
  note ti = th[THEN spec[where x = exDateUTC],
               THEN spec[where x = "\<lambda>i. (2026 :: int, 1 :: int, 5 + int i)"],
               THEN spec[where x = "1767571200000 :: int"], THEN mp, OF h3]
  from ti[THEN conjunct1]
  have "mset (map (\<lambda>i. pickDailyAnswer exDateUTC exList (2026, 1, 5 + int i)) [0..<2])
              = image_mset Some (mset exList)" by (simp only: len)
  then have pw: "mset [pickDailyAnswer exDateUTC exList (2026, 1, 5),
            pickDailyAnswer exDateUTC exList (2026, 1, 6)] = {#Some exAnswer, Some exGuess#}"
    by (simp add: exList_def upt_rec numeral_2_eq_2)
  have peq: "pickDailyAnswer exDateUTC exList (2026, 1, d1) = pickDailyAnswer exDateUTC exList (2026, 1, d2)
      \<longleftrightarrow> (exDateUTC 2026 0 d1 div 86400000) mod 2 = (exDateUTC 2026 0 d2 div 86400000) mod 2" for d1 d2
    using tg[THEN spec[where x = exDateUTC], THEN spec[where x = "2026 :: int"],
             THEN spec[where x = "1 :: int"], THEN spec[where x = d1],
             THEN spec[where x = "2026 :: int"], THEN spec[where x = "1 :: int"],
             THEN spec[where x = d2]]
    by (simp add: len)
  have p1: "pickDailyAnswer exDateUTC exList (2026, 1, 5) \<noteq> pickDailyAnswer exDateUTC exList (2026, 1, 6)"
    by (simp add: peq exDateUTC_def)
  have p2: "pickDailyAnswer exDateUTC exList (2026, 1, 7) = pickDailyAnswer exDateUTC exList (2026, 1, 5)"
    by (simp add: peq exDateUTC_def)
  have u5: "exDateUTC 2026 (1 - 1) 5 = 1767571200000"
    and u6: "exDateUTC 2026 (1 - 1) 6 = 1767571200000 + 86400000"
    by (simp_all add: exDateUTC_def)
  show ?thesis using h1 h2 u5 u6 w pw p1 p2 by (simp add: eq)
qed

section \<open>Stored state and guesses: properties\<close>

lemma loadState_date [simp]: "date (loadState today item) = today"
  by (simp add: loadState_def freshState_def split: option.splits stored.splits)

lemma loadState_toJson: "date s = today \<Longrightarrow> loadState today (Some (Parsed (toJson s))) = s"
  by (simp add: loadState_def toJson_def)

text \<open>
  C8. \<open>loadState\<close> returns the fresh state (today's date, no guesses, not solved) when
  nothing is stored, when the stored text does not parse, and when the stored value has
  no \<open>date\<close> equal to today; a stored value with today's date is restored, with
  \<open>guesses\<close> replaced by the empty array unless it is an array and \<open>solved\<close> turned
  into a boolean; whatever is stored, the result is a state dated today.
\<close>

theorem loadState_recovers:
  "loadState today None = \<lparr>date = today, guesses = [], solved = False\<rparr>
   \<and> loadState today (Some Unparsable) = \<lparr>date = today, guesses = [], solved = False\<rparr>
   \<and> (member parsed ''date'' \<noteq> Some (JStr today)
        \<longrightarrow> loadState today (Some (Parsed parsed)) = \<lparr>date = today, guesses = [], solved = False\<rparr>)
   \<and> (truthy parsed \<and> member parsed ''date'' = Some (JStr today)
        \<longrightarrow> loadState today (Some (Parsed parsed))
            = \<lparr>date = today,
               guesses = (case member parsed ''guesses'' of Some (JArr xs) \<Rightarrow> xs | _ \<Rightarrow> []),
               solved = (case member parsed ''solved'' of None \<Rightarrow> False | Some v \<Rightarrow> truthy v)\<rparr>)
   \<and> (\<forall>item. \<exists>gs b. loadState today item = \<lparr>date = today, guesses = gs, solved = b\<rparr>)"
proof -
  have "\<exists>gs b. loadState today item = \<lparr>date = today, guesses = gs, solved = b\<rparr>" for item
    by (auto simp: loadState_def freshState_def split: option.splits stored.splits)
  then show ?thesis by (simp add: loadState_def freshState_def)
qed

lemma renderGuessRow_total: "\<exists>row. renderGuessRow g a = Inr row"
proof -
  have nc: "defs \<noteq> [] \<Longrightarrow> \<exists>c. numericCell defs gv av = Inr c" for defs gv av
    using bucketUpper_nonempty[of defs gv] bucketUpper_nonempty[of defs av]
    by (auto simp: numericCell_def bindE_def)
  have pc: "defs \<noteq> [] \<Longrightarrow> \<exists>c. peCell defs gv av = Inr c" for defs gv av
    using bucketUpper_nonempty[of defs gv] bucketUpper_nonempty[of defs av]
    by (auto simp: peCell_def bindE_def)
  obtain c3 where "numericCell BUCKETS_founded (founded g) (founded a) = Inr c3"
    using nc[OF BUCKETS_nonempty(1)] by blast
  moreover obtain c4 where "numericCell BUCKETS_price (price g) (price a) = Inr c4"
    using nc[OF BUCKETS_nonempty(2)] by blast
  moreover obtain c5 where "numericCell BUCKETS_marketCap (marketCap g) (marketCap a) = Inr c5"
    using nc[OF BUCKETS_nonempty(3)] by blast
  moreover obtain c6 where "numericCell BUCKETS_employees (employees g) (employees a) = Inr c6"
    using nc[OF BUCKETS_nonempty(4)] by blast
  moreover obtain c7 where "peCell BUCKETS_pe (pe g) (pe a) = Inr c7"
    using pc[OF BUCKETS_nonempty(5)] by blast
  ultimately show ?thesis by (simp add: renderGuessRow_def bindE_def Let_def)
qed

lemma acceptGuess_storage:
  "\<exists>w'. acceptGuess co a s w = Inr w'
     \<and> storage w' = Some (Parsed (toJson (s\<lparr>guesses := guesses s @ [JStr (ticker co)],
                                           solved := (solved s \<or> ticker co = ticker a)\<rparr>)))"
proof -
  obtain row where "renderGuessRow co a = Inr row" using renderGuessRow_total by blast
  then show ?thesis
    by (simp add: acceptGuess_def bindE_def Let_def showShareButtonIfFinished_def saveState_def
        setAttempts_def lockUI_def setStatus_def hideSuggestions_def)
qed

lemma submitGuess_accepted:
  assumes "answer d = Some a" "\<not> solved (loadState today (storage w))"
    "length (guesses (loadState today (storage w))) < MAX_GUESSES"
    "trim (case inputValue of Some v \<Rightarrow> v | None \<Rightarrow> guessInputValue w) \<noteq> []"
    "resolveCompany d (trim (case inputValue of Some v \<Rightarrow> v | None \<Rightarrow> guessInputValue w)) = Some co"
    "JStr (ticker co) \<notin> set (guesses (loadState today (storage w)))"
  shows "submitGuess d today inputValue w = acceptGuess co a (loadState today (storage w)) w"
  using assms by (simp add: submitGuess_def Let_def)

lemma submitGuess_rejected:
  assumes "answer d = None \<or> solved (loadState today (storage w))
    \<or> length (guesses (loadState today (storage w))) \<ge> MAX_GUESSES
    \<or> trim (case inputValue of Some v \<Rightarrow> v | None \<Rightarrow> guessInputValue w) = []
    \<or> resolveCompany d (trim (case inputValue of Some v \<Rightarrow> v | None \<Rightarrow> guessInputValue w)) = None
    \<or> (\<exists>co. resolveCompany d (trim (case inputValue of Some v \<Rightarrow> v | None \<Rightarrow> guessInputValue w)) = Some co
           \<and> JStr (ticker co) \<in> set (guesses (loadState today (storage w))))"
  shows "\<exists>w'. submitGuess d today inputValue w = Inr w' \<and> storage w' = storage w
     \<and> guessInputValue w' = guessInputValue w \<and> rows w' = rows w \<and> attemptsText w' = attemptsText w"
  using assms
  by (auto simp: submitGuess_def Let_def showShareButtonIfFinished_def lockUI_def setStatus_def
      split: option.splits)

text \<open>
  C8, at a stored object whose \<open>guesses\<close> is a string and whose \<open>solved\<close> is 1: it is
  discarded on the next day and restored, with both members coerced, on its own day.
\<close>

theorem loadState_recovers_witness:
  "member exStored ''date'' \<noteq> Some (JStr ''2026-01-06'')
   \<and> loadState ''2026-01-06'' (Some (Parsed exStored))
       = \<lparr>date = ''2026-01-06'', guesses = [], solved = False\<rparr>
   \<and> truthy exStored \<and> member exStored ''date'' = Some (JStr ''2026-01-05'')
   \<and> loadState ''2026-01-05'' (Some (Parsed exStored))
       = \<lparr>date = ''2026-01-05'', guesses = [], solved = True\<rparr>"
proof -
  have h1: "member exStored ''date'' \<noteq> Some (JStr ''2026-01-06'')" by (simp add: exStored_def)
  have h2: "truthy exStored \<and> member exStored ''date'' = Some (JStr ''2026-01-05'')"
    by (simp add: exStored_def)
  have g: "(case member exStored ''guesses'' of Some (JArr xs) \<Rightarrow> xs | _ \<Rightarrow> []) = []"
    "(case member exStored ''solved'' of None \<Rightarrow> False | Some v \<Rightarrow> truthy v) = True"
    by (simp_all add: exStored_def)
  from loadState_recovers[of "''2026-01-06''" exStored] h1
  have a: "loadState ''2026-01-06'' (Some (Parsed exStored))
       = \<lparr>date = ''2026-01-06'', guesses = [], solved = False\<rparr>" by blast
  from loadState_recovers[of "''2026-01-05''" exStored] h2
  have "loadState ''2026-01-05'' (Some (Parsed exStored))
            = \<lparr>date = ''2026-01-05'',
               guesses = (case member exStored ''guesses'' of Some (JArr xs) \<Rightarrow> xs | _ \<Rightarrow> []),
               solved = (case member exStored ''solved'' of None \<Rightarrow> False | Some v \<Rightarrow> truthy v)\<rparr>"
    by blast
  then have b: "loadState ''2026-01-05'' (Some (Parsed exStored))
       = \<lparr>date = ''2026-01-05'', guesses = [], solved = True\<rparr>" by (simp only: g)
  from h1 h2 a b show ?thesis by blast
qed

text \<open>
  C4. When the game has an answer, the loaded session is neither solved nor full, the
  trimmed input is not empty and resolves to a company whose ticker is not among the
  guesses, then \<open>submitGuess\<close> stores the session with that ticker appended and
  \<open>solved\<close> set exactly when the ticker is the answer's; loading it again gives that
  session back. The new session is solved when the tickers agree, whatever the number of
  guesses; otherwise it is exhausted when it now has eight guesses and active when it has
  fewer.
\<close>

theorem accepted_guess_appends_and_persists:
  assumes "answer d = Some a"
    and "s = loadState today (storage w)"
    and "\<not> solved s" and "length (guesses s) < MAX_GUESSES"
    and "raw = trim (case inputValue of Some v \<Rightarrow> v | None \<Rightarrow> guessInputValue w)"
    and "raw \<noteq> []"
    and "resolveCompany d raw = Some co"
    and "JStr (ticker co) \<notin> set (guesses s)"
    and "s' = \<lparr>date = today, guesses = guesses s @ [JStr (ticker co)],
               solved = (ticker co = ticker a)\<rparr>"
  shows "\<exists>w'. submitGuess d today inputValue w = Inr w'
           \<and> storage w' = Some (Parsed (toJson s'))
           \<and> loadState today (storage w') = s'
           \<and> (ticker co = ticker a \<longrightarrow> sessionPhase s' = Solved)
           \<and> (ticker co \<noteq> ticker a \<and> length (guesses s') \<ge> MAX_GUESSES
                \<longrightarrow> sessionPhase s' = Exhausted)
           \<and> (ticker co \<noteq> ticker a \<and> length (guesses s') < MAX_GUESSES
                \<longrightarrow> sessionPhase s' = Active)"
proof -
  have ds: "date s = today" using assms(2) by simp
  have eq: "s\<lparr>guesses := guesses s @ [JStr (ticker co)], solved := (solved s \<or> ticker co = ticker a)\<rparr> = s'"
    using assms(3,9) ds by simp
  have "submitGuess d today inputValue w = acceptGuess co a s w"
    using assms(1-8) by (simp add: submitGuess_accepted)
  with acceptGuess_storage[of co a s w] eq
  obtain w' where w': "submitGuess d today inputValue w = Inr w'"
    "storage w' = Some (Parsed (toJson s'))" by auto
  have "date s' = today" using assms(9) by simp
  then have "loadState today (storage w') = s'" using w'(2) by (simp add: loadState_toJson)
  moreover have "ticker co = ticker a \<longrightarrow> sessionPhase s' = Solved"
    using assms(9) by (simp add: sessionPhase_def)
  moreover have "ticker co \<noteq> ticker a \<and> length (guesses s') \<ge> MAX_GUESSES
                \<longrightarrow> sessionPhase s' = Exhausted"
    using assms(9) by (simp add: sessionPhase_def)
  moreover have "ticker co \<noteq> ticker a \<and> length (guesses s') < MAX_GUESSES
                \<longrightarrow> sessionPhase s' = Active"
    using assms(9) by (simp add: sessionPhase_def)
  ultimately show ?thesis using w' by blast
qed

text \<open>
  C5. When the loaded session is solved or full, or the trimmed input is empty, or it
  resolves to no company, or to a company already guessed, \<open>submitGuess\<close> writes
  nothing: the stored item is the same, so the session loaded afterwards is the same
  (guesses, solved flag, date), and no row is added.
\<close>

theorem rejected_guess_changes_nothing:
  assumes "s = loadState today (storage w)"
    and "raw = trim (case inputValue of Some v \<Rightarrow> v | None \<Rightarrow> guessInputValue w)"
    and "solved s \<or> length (guesses s) \<ge> MAX_GUESSES \<or> raw = []
         \<or> resolveCompany d raw = None
         \<or> (\<exists>co. resolveCompany d raw = Some co \<and> JStr (ticker co) \<in> set (guesses s))"
  shows "\<exists>w'. submitGuess d today inputValue w = Inr w'
           \<and> storage w' = storage w
           \<and> loadState today (storage w') = s
           \<and> rows w' = rows w \<and> attemptsText w' = attemptsText w"
proof -
  have "answer d = None \<or> solved (loadState today (storage w))
    \<or> length (guesses (loadState today (storage w))) \<ge> MAX_GUESSES
    \<or> trim (case inputValue of Some v \<Rightarrow> v | None \<Rightarrow> guessInputValue w) = []
    \<or> resolveCompany d (trim (case inputValue of Some v \<Rightarrow> v | None \<Rightarrow> guessInputValue w)) = None
    \<or> (\<exists>co. resolveCompany d (trim (case inputValue of Some v \<Rightarrow> v | None \<Rightarrow> guessInputValue w)) = Some co
           \<and> JStr (ticker co) \<in> set (guesses (loadState today (storage w))))"
    using assms(3) unfolding assms(1,2) by blast
  from submitGuess_rejected[OF this]
  obtain w' where "submitGuess d today inputValue w = Inr w'" "storage w' = storage w"
    "rows w' = rows w" "attemptsText w' = attemptsText w" by blast
  then show ?thesis using assms(1) by simp
qed

text \<open>
  C9. If the guesses of the loaded session are pairwise different and at most eight,
  then after any call of \<open>submitGuess\<close> the guesses are again pairwise different and at
  most eight, and the old list is a prefix of the new one.
\<close>

theorem submitGuess_keeps_guess_list_invariant:
  assumes "s = loadState today (storage w)"
    and "distinct (guesses s)" and "length (guesses s) \<le> MAX_GUESSES"
  shows "\<exists>w'. submitGuess d today inputValue w = Inr w'
           \<and> distinct (guesses (loadState today (storage w')))
           \<and> length (guesses (loadState today (storage w'))) \<le> MAX_GUESSES
           \<and> prefix (guesses s) (guesses (loadState today (storage w')))"
proof -
  let ?raw = "trim (case inputValue of Some v \<Rightarrow> v | None \<Rightarrow> guessInputValue w)"
  show ?thesis
  proof (cases "answer d = None \<or> solved s \<or> length (guesses s) \<ge> MAX_GUESSES \<or> ?raw = []
         \<or> resolveCompany d ?raw = None
         \<or> (\<exists>co. resolveCompany d ?raw = Some co \<and> JStr (ticker co) \<in> set (guesses s))")
    case True
    with submitGuess_rejected[of d today w inputValue] assms(1)
    obtain w' where "submitGuess d today inputValue w = Inr w'" "storage w' = storage w" by blast
    then show ?thesis using assms by auto
  next
    case False
    then obtain a co where a: "answer d = Some a" and co: "resolveCompany d ?raw = Some co"
      and fresh: "JStr (ticker co) \<notin> set (guesses s)" and ns: "\<not> solved s"
      and lt: "length (guesses s) < MAX_GUESSES" and ne: "?raw \<noteq> []"
      by (cases "resolveCompany d ?raw") auto
    let ?s' = "s\<lparr>guesses := guesses s @ [JStr (ticker co)], solved := (solved s \<or> ticker co = ticker a)\<rparr>"
    have "submitGuess d today inputValue w = acceptGuess co a s w"
      using a co fresh ns lt ne assms(1) by (simp add: submitGuess_accepted)
    with acceptGuess_storage[of co a s w]
    obtain w' where w': "submitGuess d today inputValue w = Inr w'"
      "storage w' = Some (Parsed (toJson ?s'))" by auto
    have "date ?s' = today" using assms(1) by simp
    then have "loadState today (storage w') = ?s'" using w'(2) by (simp add: loadState_toJson)
    then show ?thesis using w'(1) fresh lt assms(2) by auto
  qed
qed

text \<open>
  C4, on a fresh day: typing \<open>bolt inc\<close> stores one guess and the game stays active;
  choosing the answer's ticker stores it and the game is solved.
\<close>

theorem accepted_guess_appends_and_persists_witness:
  "answer exData = Some exAnswer
   \<and> loadState ''2026-01-05'' (storage exWorld) = \<lparr>date = ''2026-01-05'', guesses = [], solved = False\<rparr>
   \<and> ''bolt inc'' = trim (case None of Some v \<Rightarrow> v | None \<Rightarrow> guessInputValue exWorld)
   \<and> resolveCompany exData ''bolt inc'' = Some exGuess
   \<and> ticker exGuess \<noteq> ticker exAnswer
   \<and> (\<exists>w'. submitGuess exData ''2026-01-05'' None exWorld = Inr w'
         \<and> storage w' = Some (Parsed (JObj [(''date'', JStr ''2026-01-05''),
                                 (''guesses'', JArr [JStr ''BLT'']), (''solved'', JBool False)]))
         \<and> loadState ''2026-01-05'' (storage w')
             = \<lparr>date = ''2026-01-05'', guesses = [JStr ''BLT''], solved = False\<rparr>
         \<and> sessionPhase \<lparr>date = ''2026-01-05'', guesses = [JStr ''BLT''], solved = False\<rparr> = Active)
   \<and> resolveCompany exData ''ACM'' = Some exAnswer
   \<and> (\<exists>w'. submitGuess exData ''2026-01-05'' (Some ''ACM'') exWorld = Inr w'
         \<and> storage w' = Some (Parsed (JObj [(''date'', JStr ''2026-01-05''),
                                 (''guesses'', JArr [JStr ''ACM'']), (''solved'', JBool True)]))
         \<and> sessionPhase \<lparr>date = ''2026-01-05'', guesses = [JStr ''ACM''], solved = True\<rparr> = Solved)"
proof -
  let ?s = "\<lparr>date = ''2026-01-05'', guesses = [], solved = False\<rparr>"
  let ?s1 = "\<lparr>date = ''2026-01-05'', guesses = guesses ?s @ [JStr (ticker exGuess)],
               solved = (ticker exGuess = ticker exAnswer)\<rparr>"
  let ?s2 = "\<lparr>date = ''2026-01-05'', guesses = guesses ?s @ [JStr (ticker exAnswer)],
               solved = (ticker exAnswer = ticker exAnswer)\<rparr>"
  have h1: "answer exData = Some exAnswer" by (simp add: exData_def)
  have h2: "?s = loadState ''2026-01-05'' (storage exWorld)"
    by (simp add: loadState_def freshState_def exWorld_def)
  have h3: "\<not> solved ?s" by simp
  have h4: "length (guesses ?s) < MAX_GUESSES" by (simp add: MAX_GUESSES_def)
  have h5: "''bolt inc'' = trim (case None of Some v \<Rightarrow> v | None \<Rightarrow> guessInputValue exWorld)"
    by (simp add: exWorld_def trim_def isSpace_def)
  have h6: "''bolt inc'' \<noteq> []" by simp
  have h7: "resolveCompany exData ''bolt inc'' = Some exGuess" by code_simp
  have h8: "JStr (ticker exGuess) \<notin> set (guesses ?s)" by simp
  have k5: "''ACM'' = trim (case Some ''ACM'' of Some v \<Rightarrow> v | None \<Rightarrow> guessInputValue exWorld)"
    by (simp add: trim_def isSpace_def)
  have k6: "''ACM'' \<noteq> []" by simp
  have k7: "resolveCompany exData ''ACM'' = Some exAnswer" by code_simp
  have k8: "JStr (ticker exAnswer) \<notin> set (guesses ?s)" by simp
  have t: "ticker exGuess = ''BLT''" "ticker exAnswer = ''ACM''"
    by (simp_all add: exGuess_def exAnswer_def)
  have e1: "?s1 = \<lparr>date = ''2026-01-05'', guesses = [JStr ''BLT''], solved = False\<rparr>"
    and e2: "?s2 = \<lparr>date = ''2026-01-05'', guesses = [JStr ''ACM''], solved = True\<rparr>"
    by (simp_all add: t)
  have len: "length [JStr ''BLT''] < MAX_GUESSES" by (simp add: MAX_GUESSES_def)
  note a1 = accepted_guess_appends_and_persists[OF h1 h2 h3 h4 h5 h6 h7 h8 refl]
  note a2 = accepted_guess_appends_and_persists[OF h1 h2 h3 h4 k5 k6 k7 k8 refl]
  from a1 have b1: "\<exists>w'. submitGuess exData ''2026-01-05'' None exWorld = Inr w'
         \<and> storage w' = Some (Parsed (JObj [(''date'', JStr ''2026-01-05''),
                                 (''guesses'', JArr [JStr ''BLT'']), (''solved'', JBool False)]))
         \<and> loadState ''2026-01-05'' (storage w')
             = \<lparr>date = ''2026-01-05'', guesses = [JStr ''BLT''], solved = False\<rparr>
         \<and> sessionPhase \<lparr>date = ''2026-01-05'', guesses = [JStr ''BLT''], solved = False\<rparr> = Active"
    unfolding e1 using len by (auto simp: t toJson_def)
  from a2 have b2: "\<exists>w'. submitGuess exData ''2026-01-05'' (Some ''ACM'') exWorld = Inr w'
         \<and> storage w' = Some (Parsed (JObj [(''date'', JStr ''2026-01-05''),
                                 (''guesses'', JArr [JStr ''ACM'']), (''solved'', JBool True)]))
         \<and> sessionPhase \<lparr>date = ''2026-01-05'', guesses = [JStr ''ACM''], solved = True\<rparr> = Solved"
    unfolding e2 by (auto simp: t toJson_def)
  show ?thesis using h1 h2[symmetric] h5 h7 k7 b1 b2 by (simp add: t)
qed

text \<open>
  C5, at a session that already holds the guess BLT: submitting BLT again writes nothing.
\<close>

theorem rejected_guess_changes_nothing_witness:
  "loadState ''2026-01-05'' (storage exPlayed)
     = \<lparr>date = ''2026-01-05'', guesses = [JStr ''BLT''], solved = False\<rparr>
   \<and> resolveCompany exData ''BLT'' = Some exGuess
   \<and> JStr (ticker exGuess) \<in> set [JStr ''BLT'']
   \<and> (\<exists>w'. submitGuess exData ''2026-01-05'' None exPlayed = Inr w'
         \<and> storage w' = storage exPlayed
         \<and> loadState ''2026-01-05'' (storage w')
              = \<lparr>date = ''2026-01-05'', guesses = [JStr ''BLT''], solved = False\<rparr>)"
proof -
  let ?s = "\<lparr>date = ''2026-01-05'', guesses = [JStr ''BLT''], solved = False\<rparr>"
  have h1: "?s = loadState ''2026-01-05'' (storage exPlayed)"
    by (simp add: loadState_def exPlayed_def exWorld_def)
  have h2: "''BLT'' = trim (case None of Some v \<Rightarrow> v | None \<Rightarrow> guessInputValue exPlayed)"
    by (simp add: exPlayed_def exWorld_def trim_def isSpace_def)
  have r: "resolveCompany exData ''BLT'' = Some exGuess" by code_simp
  have m: "JStr (ticker exGuess) \<in> set (guesses ?s)" by (simp add: exGuess_def)
  have h3: "solved ?s \<or> length (guesses ?s) \<ge> MAX_GUESSES \<or> ''BLT'' = []
         \<or> resolveCompany exData ''BLT'' = None
         \<or> (\<exists>co. resolveCompany exData ''BLT'' = Some co \<and> JStr (ticker co) \<in> set (guesses ?s))"
    using r m by blast
  from rejected_guess_changes_nothing[OF h1 h2 h3]
  have "\<exists>w'. submitGuess exData ''2026-01-05'' None exPlayed = Inr w'
         \<and> storage w' = storage exPlayed
         \<and> loadState ''2026-01-05'' (storage w') = ?s" by blast
  then show ?thesis using h1[symmetric] r m by simp
qed

text \<open>
  C9, at a session that holds one guess.
\<close>

theorem submitGuess_keeps_guess_list_invariant_witness:
  "loadState ''2026-01-05'' (storage exPlayed)
     = \<lparr>date = ''2026-01-05'', guesses = [JStr ''BLT''], solved = False\<rparr>
   \<and> distinct [JStr ''BLT''] \<and> length [JStr ''BLT''] \<le> MAX_GUESSES
   \<and> (\<exists>w'. submitGuess exData ''2026-01-05'' (Some ''acme corp'') exPlayed = Inr w'
         \<and> distinct (guesses (loadState ''2026-01-05'' (storage w')))
         \<and> length (guesses (loadState ''2026-01-05'' (storage w'))) \<le> MAX_GUESSES
         \<and> prefix [JStr ''BLT''] (guesses (loadState ''2026-01-05'' (storage w'))))"
proof -
  let ?s = "\<lparr>date = ''2026-01-05'', guesses = [JStr ''BLT''], solved = False\<rparr>"
  have h1: "?s = loadState ''2026-01-05'' (storage exPlayed)"
    by (simp add: loadState_def exPlayed_def exWorld_def)
  have h2: "distinct (guesses ?s)" by simp
  have h3: "length (guesses ?s) \<le> MAX_GUESSES" by (simp add: MAX_GUESSES_def)
  from submitGuess_keeps_guess_list_invariant[OF h1 h2 h3, of exData "Some ''acme corp''"]
  show ?thesis using h1[symmetric] h3 by simp
qed

end
